theory Spec2Isabelle
  imports Complex_Main "HOL-Library.AList"
begin

section \<open>The Solana RPC connection manager\<close>

text \<open>
  A shallow embedding of the class \<open>SolanaRpcManager\<close>. The two JavaScript \<open>Map\<close>s of the
  class are association lists in insertion order (\<open>Map.get\<close> is \<^const>\<open>map_of\<close>, \<open>Map.set\<close>
  is \<^const>\<open>AList.update\<close>, which overwrites in place or appends). Everything outside the
  process is a world of an arbitrary type \<open>'w\<close> that every effectful call takes and returns:
  the tip-height query \<open>new Connection(e).getSlot()\<close>, \<open>Math.random()\<close> and the caller's
  operation are parameters acting on that world. Slots, delays and retry counts are
  integers. An object of the class \<open>Connection\<close> of the web3 library is a plain value:
  its address and the commitment it was built with; the library's constructor may refuse
  an address, and which addresses it accepts is a parameter as well. Console logging is
  left out. Each method runs to its end before the next one starts: a refresh cycle of the
  timer is a call of \<open>updateHealthyConnections\<close> between two other calls, not one
  interleaved with the attempts of a running \<open>executeWithRetry\<close>.
\<close>

subsection \<open>Data model\<close>

datatype connection = Connection (rpcEndpoint: string) (commitment: "string option")

record rpcManagerConfig =
  defaultNetwork :: string
  officialRpcEndpoint :: string
  maxBlockDelay :: int
  healthCheckIntervalMs :: int
  defaultTimeoutMs :: int
  defaultMaxRetries :: int
  rpcHostsFilePath :: "string option"
  customRpcEndpoints :: "string list option"
  logLevel :: int

text \<open>\<open>Partial<RpcManagerConfig>\<close>: every key may be absent.\<close>

record partialConfig =
  p_defaultNetwork :: "string option"
  p_officialRpcEndpoint :: "string option"
  p_maxBlockDelay :: "int option"
  p_healthCheckIntervalMs :: "int option"
  p_defaultTimeoutMs :: "int option"
  p_defaultMaxRetries :: "int option"
  p_rpcHostsFilePath :: "string option"
  p_customRpcEndpoints :: "string list option"
  p_logLevel :: "int option"

definition DEFAULT_CONFIG :: rpcManagerConfig where
  "DEFAULT_CONFIG =
     \<lparr> defaultNetwork = ''mainnet-beta'',
       officialRpcEndpoint = ''https://api.mainnet-beta.solana.com'',
       maxBlockDelay = 30,
       healthCheckIntervalMs = 5 * 60 * 1000,
       defaultTimeoutMs = 30000,
       defaultMaxRetries = 5,
       rpcHostsFilePath = None,
       customRpcEndpoints = None,
       logLevel = 2 \<rparr>"

definition orDefault :: "'a option \<Rightarrow> 'a \<Rightarrow> 'a" where
  "orDefault v d = (case v of Some x \<Rightarrow> x | None \<Rightarrow> d)"

text \<open>The spread \<open>{ ...DEFAULT_CONFIG, ...config }\<close>.\<close>

definition mergeConfig :: "partialConfig \<Rightarrow> rpcManagerConfig" where
  "mergeConfig pc =
     \<lparr> defaultNetwork = orDefault (p_defaultNetwork pc) (defaultNetwork DEFAULT_CONFIG),
       officialRpcEndpoint =
         orDefault (p_officialRpcEndpoint pc) (officialRpcEndpoint DEFAULT_CONFIG),
       maxBlockDelay = orDefault (p_maxBlockDelay pc) (maxBlockDelay DEFAULT_CONFIG),
       healthCheckIntervalMs =
         orDefault (p_healthCheckIntervalMs pc) (healthCheckIntervalMs DEFAULT_CONFIG),
       defaultTimeoutMs = orDefault (p_defaultTimeoutMs pc) (defaultTimeoutMs DEFAULT_CONFIG),
       defaultMaxRetries = orDefault (p_defaultMaxRetries pc) (defaultMaxRetries DEFAULT_CONFIG),
       rpcHostsFilePath =
         (case p_rpcHostsFilePath pc of Some f \<Rightarrow> Some f
          | None \<Rightarrow> rpcHostsFilePath DEFAULT_CONFIG),
       customRpcEndpoints =
         (case p_customRpcEndpoints pc of Some es \<Rightarrow> Some es
          | None \<Rightarrow> customRpcEndpoints DEFAULT_CONFIG),
       logLevel = orDefault (p_logLevel pc) (logLevel DEFAULT_CONFIG) \<rparr>"

record manager =
  config :: rpcManagerConfig
  allConnections :: "(string \<times> connection list) list"
  healthyConnections :: "(string \<times> connection list) list"

text \<open>\<open>map.get(network) || []\<close>: an array is truthy, so only a missing key gives \<open>[]\<close>.\<close>

definition getOrEmpty :: "(string \<times> connection list) list \<Rightarrow> string \<Rightarrow> connection list" where
  "getOrEmpty m network = (case map_of m network of Some cs \<Rightarrow> cs | None \<Rightarrow> [])"

definition constructor :: "partialConfig \<Rightarrow> manager" where
  "constructor pc =
     (let cfg = mergeConfig pc in
      \<lparr> config = cfg,
        allConnections = AList.update (defaultNetwork cfg) [] [],
        healthyConnections = AList.update (defaultNetwork cfg) [] [] \<rparr>)"

subsection \<open>Thrown values, errors and the library's constructor\<close>

text \<open>What a rejected promise or a \<open>throw\<close> carries: an \<open>Error\<close> with its message, any other
  value \<open>v\<close> that has a string conversion, kept as \<open>String(v)\<close>, or a value on which
  \<open>String(v)\<close> throws (an object with no conversion to a primitive, for one).\<close>

datatype thrown = ErrorValue string | OtherValue string | Unconvertible

text \<open>The errors that leave a method of the class, one constructor for each place that
  throws: \<open>InvalidEndpoint\<close> is the \<open>TypeError\<close> of the \<open>Connection\<close> constructor for the
  address given; \<open>TypeError\<close> is reading \<open>rpcEndpoint\<close> of \<open>undefined\<close> in the log lines of
  \<open>getConnection\<close>; \<open>OperationError msg\<close> is what the \<open>catch\<close> of an attempt records for a
  failed operation; \<open>ConversionError\<close> is what \<open>String(error)\<close> throws inside that \<open>catch\<close>;
  \<open>TimeoutError ms\<close> is the rejection of the timeout promise.\<close>

datatype error =
    InvalidEndpoint string
  | TypeError
  | NoAvailableConnections string
  | OperationError string
  | ConversionError
  | TimeoutError int
  | RetriesFailed

text \<open>\<open>new Connection(endpoint, level)\<close>, \<open>level\<close> being the commitment. The constructor is the library's: it checks
  the address and throws for one it does not accept, such as an address that does not
  start with \<open>http:\<close> or \<open>https:\<close>. Which addresses it accepts is the parameter \<open>accepts\<close>
  of every function below that builds a connection.\<close>

definition newConnection :: "(string \<Rightarrow> bool) \<Rightarrow> string \<Rightarrow> string option \<Rightarrow> error + connection" where
  "newConnection accepts endpoint level =
     (if accepts endpoint then Inr (Connection endpoint level)
      else Inl (InvalidEndpoint endpoint))"

subsection \<open>Health prober\<close>

text \<open>\<open>getCurrentBlock\<close>: the slot, or \<open>null\<close> when anything inside its \<open>try\<close> throws. The
  parameter \<open>getSlot\<close> is that body, \<open>new Connection(rpcEndpoint).getSlot()\<close>, as a whole.\<close>

definition getCurrentBlock ::
  "(string \<Rightarrow> 'w \<Rightarrow> (thrown + int) \<times> 'w) \<Rightarrow> string \<Rightarrow> 'w \<Rightarrow> int option \<times> 'w" where
  "getCurrentBlock getSlot endpoint w =
     (case getSlot endpoint w of
        (Inr block, w') \<Rightarrow> (Some block, w')
      | (Inl err, w') \<Rightarrow> (None, w'))"

text \<open>The inner loop of \<open>updateHealthyConnections\<close> over one network's connections;
  \<open>healthyEndpoints\<close> is the array being pushed to.\<close>

fun checkConnections ::
  "rpcManagerConfig \<Rightarrow> (string \<Rightarrow> 'w \<Rightarrow> (thrown + int) \<times> 'w) \<Rightarrow> int \<Rightarrow> connection list \<Rightarrow>
   connection list \<Rightarrow> 'w \<Rightarrow> connection list \<times> 'w" where
  "checkConnections cfg getSlot officialBlock [] healthyEndpoints w = (healthyEndpoints, w)"
| "checkConnections cfg getSlot officialBlock (connection # rest) healthyEndpoints w =
     (case getCurrentBlock getSlot (rpcEndpoint connection) w of
        (None, w') \<Rightarrow> checkConnections cfg getSlot officialBlock rest healthyEndpoints w'
      | (Some currentBlock, w') \<Rightarrow>
          if officialBlock - currentBlock \<le> maxBlockDelay cfg
          then checkConnections cfg getSlot officialBlock rest (healthyEndpoints @ [connection]) w'
          else checkConnections cfg getSlot officialBlock rest healthyEndpoints w')"

text \<open>The outer loop over the entries of \<open>allConnections\<close>; \<open>healthy\<close> is the map
  \<open>healthyConnections\<close>.\<close>

fun checkNetworks ::
  "rpcManagerConfig \<Rightarrow> (string \<Rightarrow> 'w \<Rightarrow> (thrown + int) \<times> 'w) \<Rightarrow> int \<Rightarrow>
   (string \<times> connection list) list \<Rightarrow> (string \<times> connection list) list \<Rightarrow> 'w \<Rightarrow>
   (string \<times> connection list) list \<times> 'w" where
  "checkNetworks cfg getSlot officialBlock [] healthy w = (healthy, w)"
| "checkNetworks cfg getSlot officialBlock ((network, connections) # rest) healthy w =
     (case checkConnections cfg getSlot officialBlock connections [] w of
        (healthyEndpoints, w') \<Rightarrow>
          checkNetworks cfg getSlot officialBlock rest
            (AList.update network healthyEndpoints healthy) w')"

text \<open>\<open>updateHealthyConnections\<close>. The test \<open>!officialBlock\<close> holds for \<open>null\<close> and for \<open>0\<close>.
  Nothing in the body throws (the only failing call is caught in \<open>getCurrentBlock\<close>), so
  the result is always the next manager and world.\<close>

definition updateHealthyConnections ::
  "(string \<Rightarrow> 'w \<Rightarrow> (thrown + int) \<times> 'w) \<Rightarrow> manager \<Rightarrow> 'w \<Rightarrow> manager \<times> 'w" where
  "updateHealthyConnections getSlot m w =
     (case getCurrentBlock getSlot (officialRpcEndpoint (config m)) w of
        (officialBlock, w1) \<Rightarrow>
          if officialBlock = None \<or> officialBlock = Some 0 then (m, w1)
          else
            (case checkNetworks (config m) getSlot (the officialBlock)
                    (allConnections m) (healthyConnections m) w1 of
               (healthy, w2) \<Rightarrow> (m\<lparr>healthyConnections := healthy\<rparr>, w2)))"

subsection \<open>Endpoint sources and initialisation\<close>

text \<open>What \<open>JSON.parse\<close> of the hosts file yields: a string entry, or any other value, on
  which \<open>host.startsWith\<close> throws. The file itself is missing, unreadable (the read or the
  parse throws, or the value parsed is no array), or an array of entries.\<close>

datatype jsonItem = JString string | JOther

datatype hostsFile = Missing | Unreadable | Parsed "jsonItem list"

text \<open>\<open>Set.add\<close> followed by \<open>Array.from\<close>: insertion order, first occurrence kept.\<close>

definition setAdd :: "string list \<Rightarrow> string \<Rightarrow> string list" where
  "setAdd endpoints e = (if e \<in> set endpoints then endpoints else endpoints @ [e])"

definition startsWith :: "string \<Rightarrow> string \<Rightarrow> bool" where
  "startsWith s p = (take (length p) s = p)"

text \<open>\<open>hostsFromFile.forEach\<close>: a non-string entry throws, the \<open>catch\<close> around the file block
  logs it, and the entries added before it stay in the set.\<close>

fun addHosts :: "string list \<Rightarrow> jsonItem list \<Rightarrow> string list" where
  "addHosts endpoints [] = endpoints"
| "addHosts endpoints (JString host # rest) =
     addHosts (setAdd endpoints (if startsWith host ''http'' then host else ''http://'' @ host)) rest"
| "addHosts endpoints (JOther # rest) = endpoints"

text \<open>\<open>loadRpcEndpoints\<close>; the parameter \<open>fs\<close> is the file system read at the configured path.
  An empty path is falsy and skips the file.\<close>

definition loadRpcEndpoints :: "rpcManagerConfig \<Rightarrow> (string \<Rightarrow> hostsFile) \<Rightarrow> string list" where
  "loadRpcEndpoints cfg fs =
     (let endpoints0 =
        (case customRpcEndpoints cfg of
           None \<Rightarrow> []
         | Some custom \<Rightarrow> if length custom > 0 then foldl setAdd [] custom else []);
          endpoints1 =
        (case rpcHostsFilePath cfg of
           None \<Rightarrow> endpoints0
         | Some path \<Rightarrow>
             if path = [] then endpoints0
             else (case fs path of
                     Missing \<Rightarrow> endpoints0
                   | Unreadable \<Rightarrow> endpoints0
                   | Parsed hostsFromFile \<Rightarrow> addHosts endpoints0 hostsFromFile))
      in setAdd endpoints1 (officialRpcEndpoint cfg))"

text \<open>\<open>endpoints.map(endpoint => new Connection(endpoint, 'confirmed'))\<close>: the first
  address the constructor refuses ends the \<open>map\<close> with its error.\<close>

fun newConnections :: "(string \<Rightarrow> bool) \<Rightarrow> string list \<Rightarrow> error + connection list" where
  "newConnections accepts [] = Inr []"
| "newConnections accepts (endpoint # rest) =
     (case newConnection accepts endpoint (Some ''confirmed'') of
        Inl err \<Rightarrow> Inl err
      | Inr connection \<Rightarrow>
          (case newConnections accepts rest of
             Inl err \<Rightarrow> Inl err
           | Inr connections \<Rightarrow> Inr (connection # connections)))"

text \<open>\<open>initialize\<close>: the connections replace the default network's entry of
  \<open>allConnections\<close>, then one refresh cycle runs. When a constructor throws, the \<open>catch\<close>
  rethrows with nothing stored. The periodic timer it starts is not part of the state.\<close>

definition initialize ::
  "(string \<Rightarrow> bool) \<Rightarrow> (string \<Rightarrow> 'w \<Rightarrow> (thrown + int) \<times> 'w) \<Rightarrow> (string \<Rightarrow> hostsFile) \<Rightarrow>
   manager \<Rightarrow> 'w \<Rightarrow> (error + unit) \<times> manager \<times> 'w" where
  "initialize accepts getSlot fs m w =
     (let loaded = loadRpcEndpoints (config m) fs;
          endpoints = (if length loaded = 0 then loaded @ [officialRpcEndpoint (config m)]
                       else loaded)
      in case newConnections accepts endpoints of
           Inl err \<Rightarrow> (Inl err, m, w)
         | Inr connections \<Rightarrow>
             (case updateHealthyConnections getSlot
                     (m\<lparr>allConnections := AList.update (defaultNetwork (config m)) connections
                                            (allConnections m)\<rparr>) w of
                (m', w') \<Rightarrow> (Inr (), m', w')))"

subsection \<open>Connection selector\<close>

text \<open>The result of \<open>Math.random()\<close>: a number from 0 up to but not including 1. The
  product with the length is taken in the reals.\<close>

typedef unitInterval = "{r :: real. 0 \<le> r \<and> r < 1}"
  by (rule exI [of _ 0]) simp

definition randomIndex :: "unitInterval \<Rightarrow> nat \<Rightarrow> int" where
  "randomIndex r n = \<lfloor>Rep_unitInterval r * real n\<rfloor>"

text \<open>Reading \<open>xs[i]\<close>: \<open>undefined\<close> outside the array.\<close>

definition arrayAt :: "'a list \<Rightarrow> int \<Rightarrow> 'a option" where
  "arrayAt xs i = (if 0 \<le> i \<and> i < int (length xs) then Some (xs ! nat i) else None)"

text \<open>\<open>getConnection\<close>: a member of the healthy list, else a member of all connections of
  the network, else a new connection to the official endpoint, built outside any \<open>try\<close>.
  The template string of each log line reads \<open>rpcEndpoint\<close> of the chosen element before
  it is returned.\<close>

definition pick ::
  "connection list \<Rightarrow> ('w \<Rightarrow> unitInterval \<times> 'w) \<Rightarrow> 'w \<Rightarrow> (error + connection option) \<times> 'w" where
  "pick connections mathRandom w =
     (case mathRandom w of
        (r, w') \<Rightarrow>
          (case arrayAt connections (randomIndex r (length connections)) of
             None \<Rightarrow> (Inl TypeError, w')
           | Some connection \<Rightarrow> (Inr (Some connection), w')))"

definition getConnection ::
  "(string \<Rightarrow> bool) \<Rightarrow> manager \<Rightarrow> ('w \<Rightarrow> unitInterval \<times> 'w) \<Rightarrow> string \<Rightarrow> 'w \<Rightarrow>
   (error + connection option) \<times> 'w" where
  "getConnection accepts m mathRandom network w =
     (let connections = getOrEmpty (healthyConnections m) network in
      if length connections = 0 then
        (let allNetworkConnections = getOrEmpty (allConnections m) network in
         if length allNetworkConnections > 0 then pick allNetworkConnections mathRandom w
         else (case newConnection accepts (officialRpcEndpoint (config m)) None of
                 Inl err \<Rightarrow> (Inl err, w)
               | Inr connection \<Rightarrow> (Inr (Some connection), w)))
      else pick connections mathRandom w)"

subsection \<open>Retrying executor\<close>

text \<open>How the caller's operation stands when the race with the timeout is decided: it
  has resolved, it has rejected (or thrown), or it is still pending and the timeout wins.\<close>

datatype 'a settled = Resolved 'a | Rejected thrown | Pending

text \<open>How one attempt ends: the \<open>try\<close> returns the result; or the \<open>catch\<close> records
  \<open>lastError\<close> (\<open>error instanceof Error ? error : new Error(String(error))\<close>) and the loop
  goes on; or \<open>String(error)\<close> throws inside the \<open>catch\<close> and that error leaves the method.\<close>

datatype 'a attempt = Returned 'a | Recorded error | Escaped error

definition attemptOutcome :: "int \<Rightarrow> 'a settled \<Rightarrow> 'a attempt" where
  "attemptOutcome timeoutMs s =
     (case s of
        Resolved result \<Rightarrow> Returned result
      | Rejected (ErrorValue msg) \<Rightarrow> Recorded (OperationError msg)
      | Rejected (OtherValue str) \<Rightarrow> Recorded (OperationError str)
      | Rejected Unconvertible \<Rightarrow> Escaped ConversionError
      | Pending \<Rightarrow> Recorded (TimeoutError timeoutMs))"

text \<open>The \<open>while (attempt < maxRetries)\<close> loop. \<open>getConnection\<close> is called outside the
  \<open>try\<close>, so what it throws leaves the loop.\<close>

function retryLoop ::
  "(string \<Rightarrow> bool) \<Rightarrow> manager \<Rightarrow> ('w \<Rightarrow> unitInterval \<times> 'w) \<Rightarrow>
   (connection \<Rightarrow> 'w \<Rightarrow> 'a settled \<times> 'w) \<Rightarrow> string \<Rightarrow> int \<Rightarrow> int \<Rightarrow> int \<Rightarrow> error option \<Rightarrow> 'w \<Rightarrow>
   (error + 'a) \<times> 'w" where
  "retryLoop accepts m mathRandom rpcMethod network maxRetries timeoutMs attempt lastError w =
     (if attempt < maxRetries then
        (case getConnection accepts m mathRandom network w of
           (Inl thrownError, w1) \<Rightarrow> (Inl thrownError, w1)
         | (Inr None, w1) \<Rightarrow> (Inl (NoAvailableConnections network), w1)
         | (Inr (Some connection), w1) \<Rightarrow>
             (case rpcMethod connection w1 of
                (s, w2) \<Rightarrow>
                  (case attemptOutcome timeoutMs s of
                     Returned result \<Rightarrow> (Inr result, w2)
                   | Recorded err \<Rightarrow>
                       retryLoop accepts m mathRandom rpcMethod network maxRetries timeoutMs
                         (attempt + 1) (Some err) w2
                   | Escaped thrownError \<Rightarrow> (Inl thrownError, w2))))
      else (Inl (case lastError of Some err \<Rightarrow> err | None \<Rightarrow> RetriesFailed), w))"
  by pat_completeness auto
termination
  by (relation "measure (\<lambda>(accepts, m, mathRandom, rpcMethod, network, maxRetries, timeoutMs,
                           attempt, lastError, w). nat (maxRetries - attempt))") auto

declare retryLoop.simps [simp del]

text \<open>The options object of \<open>executeWithRetry\<close>: every key may be absent.\<close>

record retryOptions =
  opt_network :: "string option"
  opt_maxRetries :: "int option"
  opt_timeoutMs :: "int option"
  opt_forceHealthCheck :: "bool option"

text \<open>\<open>executeWithRetry\<close>: the options take their defaults from the configuration, a forced
  health check runs first, then the loop starts at attempt 0 with no error recorded.\<close>

definition executeWithRetry ::
  "(string \<Rightarrow> bool) \<Rightarrow> (string \<Rightarrow> 'w \<Rightarrow> (thrown + int) \<times> 'w) \<Rightarrow> ('w \<Rightarrow> unitInterval \<times> 'w) \<Rightarrow>
   (connection \<Rightarrow> 'w \<Rightarrow> 'a settled \<times> 'w) \<Rightarrow> retryOptions \<Rightarrow> manager \<Rightarrow> 'w \<Rightarrow>
   (error + 'a) \<times> manager \<times> 'w" where
  "executeWithRetry accepts getSlot mathRandom rpcMethod options m w =
     (let network = orDefault (opt_network options) (defaultNetwork (config m));
          maxRetries = orDefault (opt_maxRetries options) (defaultMaxRetries (config m));
          timeoutMs = orDefault (opt_timeoutMs options) (defaultTimeoutMs (config m));
          forceHealthCheck = orDefault (opt_forceHealthCheck options) False
      in case (if forceHealthCheck then updateHealthyConnections getSlot m w else (m, w)) of
           (m1, w1) \<Rightarrow>
             (case retryLoop accepts m1 mathRandom rpcMethod network maxRetries timeoutMs 0 None
                     w1 of
                (result, w2) \<Rightarrow> (result, m1, w2)))"

section \<open>Notions of the specification\<close>

subsection \<open>Health classification\<close>

text \<open>What the network answers when each endpoint of a list is asked for its height once,
  in the order of the list, starting in world \<open>w\<close>: the height of an endpoint whose query
  succeeded, nothing for one whose query failed; and the world after the last answer.
  Both are read off the queries themselves.\<close>

fun observations ::
  "(string \<Rightarrow> 'w \<Rightarrow> (thrown + int) \<times> 'w) \<Rightarrow> connection list \<Rightarrow> 'w \<Rightarrow> int option list" where
  "observations getSlot [] w = []"
| "observations getSlot (c # cs) w =
     (case getSlot (rpcEndpoint c) w of
        (Inr h, w') \<Rightarrow> Some h # observations getSlot cs w'
      | (Inl err, w') \<Rightarrow> None # observations getSlot cs w')"

fun worldAfter ::
  "(string \<Rightarrow> 'w \<Rightarrow> (thrown + int) \<times> 'w) \<Rightarrow> connection list \<Rightarrow> 'w \<Rightarrow> 'w" where
  "worldAfter getSlot [] w = w"
| "worldAfter getSlot (c # cs) w = worldAfter getSlot cs (snd (getSlot (rpcEndpoint c) w))"

text \<open>The specification's rule: an endpoint is healthy iff its height query succeeded
  and \<open>officialHeight - endpointHeight \<le> maxBlockDelay\<close>.\<close>

definition withinDelay :: "rpcManagerConfig \<Rightarrow> int \<Rightarrow> int option \<Rightarrow> bool" where
  "withinDelay cfg H r = (case r of None \<Rightarrow> False | Some h \<Rightarrow> H - h \<le> maxBlockDelay cfg)"

text \<open>The order-preserving filter of the connections by that rule.\<close>

definition healthyFilter ::
  "rpcManagerConfig \<Rightarrow> int \<Rightarrow> connection list \<Rightarrow> int option list \<Rightarrow> connection list" where
  "healthyFilter cfg H cs obs = map fst (filter (\<lambda>(c, r). withinDelay cfg H r) (zip cs obs))"

subsection \<open>Life cycle\<close>

text \<open>The states a manager goes through: it is constructed, initialised once, and
  refresh cycles run at any moment, each in whatever world the process is in then. An
  initialisation that throws leaves a manager that is still to be initialised.\<close>

datatype phase = Constructed | Initialized

inductive reachable ::
  "(string \<Rightarrow> bool) \<Rightarrow> (string \<Rightarrow> 'w \<Rightarrow> (thrown + int) \<times> 'w) \<Rightarrow> (string \<Rightarrow> hostsFile) \<Rightarrow> phase \<Rightarrow>
   manager \<Rightarrow> bool"
  for accepts :: "string \<Rightarrow> bool" and getSlot :: "string \<Rightarrow> 'w \<Rightarrow> (thrown + int) \<times> 'w"
    and fs :: "string \<Rightarrow> hostsFile" where
  construction: "reachable accepts getSlot fs Constructed (constructor pc)"
| initialisation:
    "reachable accepts getSlot fs Constructed m \<Longrightarrow>
     initialize accepts getSlot fs m w = (Inr (), m', w') \<Longrightarrow>
     reachable accepts getSlot fs Initialized m'"
| failedInitialisation:
    "reachable accepts getSlot fs Constructed m \<Longrightarrow>
     initialize accepts getSlot fs m w = (Inl err, m', w') \<Longrightarrow>
     reachable accepts getSlot fs Constructed m'"
| refresh:
    "reachable accepts getSlot fs p m \<Longrightarrow>
     reachable accepts getSlot fs p (fst (updateHealthyConnections getSlot m w))"

subsection \<open>Attempts\<close>

text \<open>Counting attempts, as a test double does: \<open>spy rpcMethod\<close> behaves as \<open>rpcMethod\<close>
  and appends what each invocation settled to, to a list of calls carried beside the
  world; \<open>aside f\<close> runs any other effect \<open>f\<close> beside that list, leaving it alone.\<close>

definition spy ::
  "(connection \<Rightarrow> 'w \<Rightarrow> 'a settled \<times> 'w) \<Rightarrow> connection \<Rightarrow> 'a settled list \<times> 'w \<Rightarrow>
   'a settled \<times> 'a settled list \<times> 'w" where
  "spy rpcMethod c = (\<lambda>(calls, w). case rpcMethod c w of (s, w') \<Rightarrow> (s, calls @ [s], w'))"

definition aside :: "('w \<Rightarrow> 'b \<times> 'w) \<Rightarrow> 'l \<times> 'w \<Rightarrow> 'b \<times> 'l \<times> 'w" where
  "aside f = (\<lambda>(calls, w). case f w of (r, w') \<Rightarrow> (r, calls, w'))"

text \<open>The failure the specification has recorded for an attempt: the cause of the
  rejection, or the timeout.\<close>

definition recordedFor :: "int \<Rightarrow> 'a settled \<Rightarrow> error \<Rightarrow> bool" where
  "recordedFor timeoutMs s err =
     (case s of
        Resolved v \<Rightarrow> False
      | Rejected (ErrorValue msg) \<Rightarrow> err = OperationError msg
      | Rejected (OtherValue str) \<Rightarrow> err = OperationError str
      | Rejected Unconvertible \<Rightarrow> False
      | Pending \<Rightarrow> err = TimeoutError timeoutMs)"

text \<open>How attempt \<open>k + 1\<close> settles and the world right after it, when the attempts are made
  one after the other from world \<open>w\<close> and each of the \<open>k\<close> attempts before it failed in a
  way the specification retries: a rejection with an \<open>Error\<close> or with a value that has a
  string conversion, or a timeout. \<open>None\<close> when there is no such attempt.\<close>

fun nthAttempt ::
  "(string \<Rightarrow> bool) \<Rightarrow> manager \<Rightarrow> ('w \<Rightarrow> unitInterval \<times> 'w) \<Rightarrow>
   (connection \<Rightarrow> 'w \<Rightarrow> 'a settled \<times> 'w) \<Rightarrow> string \<Rightarrow> nat \<Rightarrow> 'w \<Rightarrow> ('a settled \<times> 'w) option" where
  "nthAttempt accepts m mathRandom rpcMethod net 0 w =
     (case getConnection accepts m mathRandom net w of
        (Inr (Some c), w1) \<Rightarrow> Some (rpcMethod c w1)
      | (Inr None, w1) \<Rightarrow> None
      | (Inl err, w1) \<Rightarrow> None)"
| "nthAttempt accepts m mathRandom rpcMethod net (Suc k) w =
     (case getConnection accepts m mathRandom net w of
        (Inr (Some c), w1) \<Rightarrow>
          (case rpcMethod c w1 of
             (Resolved v, w2) \<Rightarrow> None
           | (Rejected Unconvertible, w2) \<Rightarrow> None
           | (Rejected (ErrorValue msg), w2) \<Rightarrow> nthAttempt accepts m mathRandom rpcMethod net k w2
           | (Rejected (OtherValue str), w2) \<Rightarrow> nthAttempt accepts m mathRandom rpcMethod net k w2
           | (Pending, w2) \<Rightarrow> nthAttempt accepts m mathRandom rpcMethod net k w2)
      | (Inr None, w1) \<Rightarrow> None
      | (Inl err, w1) \<Rightarrow> None)"

section \<open>A worked configuration\<close>

text \<open>The world of the examples is a counter that every height query and every
  invocation of an operation advances. Heights come from a table; an endpoint missing from
  the table is unreachable.\<close>

definition tableSlot :: "(string \<times> int) list \<Rightarrow> string \<Rightarrow> nat \<Rightarrow> (thrown + int) \<times> nat" where
  "tableSlot tbl endpoint w =
     (case map_of tbl endpoint of
        Some h \<Rightarrow> (Inr h, Suc w)
      | None \<Rightarrow> (Inl (ErrorValue ''unreachable''), Suc w))"

definition noFiles :: "string \<Rightarrow> hostsFile" where
  "noFiles path = Missing"

text \<open>The constructor of the examples accepts the addresses that start with \<open>http:\<close> or
  \<open>https:\<close>, the first thing the library's constructor looks at.\<close>

definition httpScheme :: "string \<Rightarrow> bool" where
  "httpScheme endpoint = (startsWith endpoint ''http:'' \<or> startsWith endpoint ''https:'')"

definition examplePartial :: partialConfig where
  "examplePartial =
     \<lparr> p_defaultNetwork = Some ''devnet'', p_officialRpcEndpoint = Some ''https://ref'',
       p_maxBlockDelay = None, p_healthCheckIntervalMs = None, p_defaultTimeoutMs = None,
       p_defaultMaxRetries = None, p_rpcHostsFilePath = None,
       p_customRpcEndpoints = Some [''https://a'', ''https://b'', ''https://c'', ''https://d''],
       p_logLevel = None \<rparr>"

text \<open>With the default delay of 30: \<open>a\<close> is 30 behind, \<open>b\<close> is 31 behind, \<open>c\<close> is ahead and
  \<open>d\<close> does not answer.\<close>

definition exampleHeights :: "(string \<times> int) list" where
  "exampleHeights =
     [(''https://ref'', 100), (''https://a'', 70), (''https://b'', 69), (''https://c'', 130)]"

text \<open>Every endpoint reports slot 0.\<close>

definition genesisHeights :: "(string \<times> int) list" where
  "genesisHeights =
     [(''https://ref'', 0), (''https://a'', 0), (''https://b'', 0), (''https://c'', 0),
      (''https://d'', 0)]"

definition exampleConnections :: "connection list" where
  "exampleConnections =
     map (\<lambda>endpoint. Connection endpoint (Some ''confirmed''))
       [''https://a'', ''https://b'', ''https://c'', ''https://d'', ''https://ref'']"

text \<open>A manager initialised while nothing answered, and the same manager after a refresh
  cycle against the table.\<close>

definition staleManager :: manager where
  "staleManager =
     fst (snd (initialize httpScheme (tableSlot []) noFiles (constructor examplePartial) 0))"

definition healthyManager :: manager where
  "healthyManager = fst (updateHealthyConnections (tableSlot exampleHeights) staleManager 0)"

definition halfRandom :: "nat \<Rightarrow> unitInterval \<times> nat" where
  "halfRandom w = (Abs_unitInterval (1 / 2), w)"

text \<open>A manager whose reference address has no scheme, and which has no other endpoint:
  its initialisation throws, so it stays as constructed.\<close>

definition schemelessPartial :: partialConfig where
  "schemelessPartial =
     \<lparr> p_defaultNetwork = Some ''devnet'',
       p_officialRpcEndpoint = Some ''ref.example.com:8899'',
       p_maxBlockDelay = None, p_healthCheckIntervalMs = None, p_defaultTimeoutMs = None,
       p_defaultMaxRetries = None, p_rpcHostsFilePath = None, p_customRpcEndpoints = None,
       p_logLevel = None \<rparr>"

definition schemelessManager :: manager where
  "schemelessManager = constructor schemelessPartial"

text \<open>An operation that never resolves: it stays pending, then rejects with a string,
  then with an \<open>Error\<close>.\<close>

definition failingOperation :: "connection \<Rightarrow> nat \<Rightarrow> string settled \<times> nat" where
  "failingOperation c w =
     (if w = 0 then Pending
      else if w = 1 then Rejected (OtherValue ''reset'')
      else Rejected (ErrorValue ''refused''), Suc w)"

text \<open>An operation that always rejects with a value that has no string conversion, and
  one that does so when first invoked and resolves to the address it was given
  afterwards.\<close>

definition opaqueOperation :: "connection \<Rightarrow> nat \<Rightarrow> string settled \<times> nat" where
  "opaqueOperation c w = (Rejected Unconvertible, Suc w)"

definition opaqueOnceOperation :: "connection \<Rightarrow> nat \<Rightarrow> string settled \<times> nat" where
  "opaqueOnceOperation c w =
     (if w = 0 then Rejected Unconvertible else Resolved (rpcEndpoint c), Suc w)"

text \<open>An operation that fails when first invoked and resolves to the address it was
  given afterwards.\<close>

definition secondTimeOperation :: "connection \<Rightarrow> nat \<Rightarrow> string settled \<times> nat" where
  "secondTimeOperation c w =
     (if w = 0 then Rejected (ErrorValue ''refused'') else Resolved (rpcEndpoint c), Suc w)"

definition exampleOptions :: retryOptions where
  "exampleOptions =
     \<lparr> opt_network = None, opt_maxRetries = Some 3, opt_timeoutMs = Some 5000,
       opt_forceHealthCheck = None \<rparr>"

definition noRetryOptions :: retryOptions where
  "noRetryOptions =
     \<lparr> opt_network = None, opt_maxRetries = Some 0, opt_timeoutMs = None,
       opt_forceHealthCheck = None \<rparr>"

text \<open>A hosts file with two entries that have no scheme; the second happens to begin
  with the letters \<open>http\<close>.\<close>

definition hostsConfig :: rpcManagerConfig where
  "hostsConfig = (mergeConfig examplePartial)\<lparr>rpcHostsFilePath := Some ''./rpcHosts.json''\<rparr>"

definition hostsFiles :: "string \<Rightarrow> hostsFile" where
  "hostsFiles path =
     (if path = ''./rpcHosts.json''
      then Parsed [JString ''endpoint1.com:8899'', JString ''httpnode.example.com:8899'']
      else Missing)"

section \<open>The worked configuration, evaluated\<close>

lemma exampleConfig_fields:
  "defaultNetwork (mergeConfig examplePartial) = ''devnet''"
  "officialRpcEndpoint (mergeConfig examplePartial) = ''https://ref''"
  "maxBlockDelay (mergeConfig examplePartial) = 30"
  "defaultMaxRetries (mergeConfig examplePartial) = 5"
  "defaultTimeoutMs (mergeConfig examplePartial) = 30000"
  "rpcHostsFilePath (mergeConfig examplePartial) = None"
  "customRpcEndpoints (mergeConfig examplePartial) =
     Some [''https://a'', ''https://b'', ''https://c'', ''https://d'']"
  by (simp_all add: mergeConfig_def examplePartial_def orDefault_def DEFAULT_CONFIG_def)

lemma exampleEndpoints_eq:
  "loadRpcEndpoints (mergeConfig examplePartial) noFiles =
     [''https://a'', ''https://b'', ''https://c'', ''https://d'', ''https://ref'']"
  by (simp add: exampleConfig_fields loadRpcEndpoints_def setAdd_def)

lemma staleManager_eq:
  "staleManager =
     \<lparr> config = mergeConfig examplePartial,
       allConnections = [(''devnet'', exampleConnections)],
       healthyConnections = [(''devnet'', [])] \<rparr>"
  by (simp add: staleManager_def initialize_def constructor_def exampleEndpoints_eq
      newConnection_def httpScheme_def startsWith_def
      updateHealthyConnections_def getCurrentBlock_def tableSlot_def exampleConnections_def
      exampleConfig_fields)

lemma healthyManager_eq:
  "healthyManager =
     \<lparr> config = mergeConfig examplePartial,
       allConnections = [(''devnet'', exampleConnections)],
       healthyConnections =
         [(''devnet'', [Connection ''https://a'' (Some ''confirmed''),
                       Connection ''https://c'' (Some ''confirmed''),
                       Connection ''https://ref'' (Some ''confirmed'')])] \<rparr>"
  by (simp add: healthyManager_def staleManager_eq
      updateHealthyConnections_def getCurrentBlock_def tableSlot_def exampleConnections_def
      exampleConfig_fields exampleHeights_def)

lemma schemelessManager_fields:
  "officialRpcEndpoint (config schemelessManager) = ''ref.example.com:8899''"
  "defaultNetwork (config schemelessManager) = ''devnet''"
  "defaultMaxRetries (config schemelessManager) = 5"
  "defaultTimeoutMs (config schemelessManager) = 30000"
  "allConnections schemelessManager = [(''devnet'', [])]"
  "healthyConnections schemelessManager = [(''devnet'', [])]"
  by (simp_all add: schemelessManager_def constructor_def mergeConfig_def schemelessPartial_def
      orDefault_def DEFAULT_CONFIG_def)

section \<open>Health prober\<close>

subsection \<open>The two loops\<close>

lemma checkConnections_eq:
  "checkConnections cfg g H cs acc w =
     (acc @ healthyFilter cfg H cs (observations g cs w), worldAfter g cs w)"
proof (induction cs arbitrary: acc w)
  case Nil
  show ?case by (simp add: healthyFilter_def)
next
  case (Cons c cs)
  obtain r w' where q: "g (rpcEndpoint c) w = (r, w')"
    by (cases "g (rpcEndpoint c) w")
  show ?case
    using q Cons.IH
    by (cases r) (simp_all add: getCurrentBlock_def healthyFilter_def withinDelay_def)
qed

lemma worldAfter_append:
  "worldAfter g (xs @ ys) w = worldAfter g ys (worldAfter g xs w)"
  by (induction xs arbitrary: w) simp_all

lemma checkNetworks_world:
  "snd (checkNetworks cfg g H es h w) = worldAfter g (concat (map snd es)) w"
  by (induction es arbitrary: h w)
     (auto simp: checkConnections_eq worldAfter_append)

lemma checkNetworks_append:
  "checkNetworks cfg g H (xs @ ys) h w =
     (case checkNetworks cfg g H xs h w of (h1, w1) \<Rightarrow> checkNetworks cfg g H ys h1 w1)"
  by (induction xs arbitrary: h w) (auto split: prod.splits)

lemma checkNetworks_other:
  "net \<notin> fst ` set es \<Longrightarrow>
   map_of (fst (checkNetworks cfg g H es h w)) net = map_of h net"
  by (induction es arbitrary: h w)
     (auto simp: checkConnections_eq update_conv')

lemma checkNetworks_at:
  assumes "net \<notin> fst ` set post"
  shows "map_of (fst (checkNetworks cfg g H (pre @ (net, cs) # post) h w)) net =
         Some (healthyFilter cfg H cs (observations g cs (worldAfter g (concat (map snd pre)) w)))"
proof -
  obtain h1 w1 where p: "checkNetworks cfg g H pre h w = (h1, w1)"
    by (cases "checkNetworks cfg g H pre h w")
  have w1: "w1 = worldAfter g (concat (map snd pre)) w"
    using checkNetworks_world [of cfg g H pre h w] p by simp
  show ?thesis
    using assms p w1
    by (simp add: checkNetworks_append checkConnections_eq checkNetworks_other update_conv')
qed

subsection \<open>One refresh cycle\<close>

lemma update_skipped:
  "getCurrentBlock g (officialRpcEndpoint (config m)) w = (r, w1) \<Longrightarrow> r = None \<or> r = Some 0 \<Longrightarrow>
   updateHealthyConnections g m w = (m, w1)"
  by (auto simp: updateHealthyConnections_def)

lemma update_run:
  "getCurrentBlock g (officialRpcEndpoint (config m)) w = (Some H, w1) \<Longrightarrow> H \<noteq> 0 \<Longrightarrow>
   updateHealthyConnections g m w =
     (m\<lparr>healthyConnections :=
          fst (checkNetworks (config m) g H (allConnections m) (healthyConnections m) w1)\<rparr>,
      snd (checkNetworks (config m) g H (allConnections m) (healthyConnections m) w1))"
  by (simp add: updateHealthyConnections_def split: prod.splits)

lemma getCurrentBlock_answer:
  "g endpoint w = (Inr h, w') \<Longrightarrow> getCurrentBlock g endpoint w = (Some h, w')"
  by (simp add: getCurrentBlock_def)

text \<open>What does hold of a refresh cycle: when the reference endpoint answers with a height
  \<open>H\<close> other than 0, the healthy list of each network is the order-preserving filter of
  its connections by the specification's rule. The network's entry is \<open>(net, cs)\<close>, the
  entries before it are \<open>pre\<close>: their endpoints are queried first.\<close>

lemma refresh_filters_for_nonzero_height:
  assumes "getSlot (officialRpcEndpoint (config m)) w = (Inr H, w0)"
    and "H \<noteq> 0"
    and "allConnections m = pre @ (net, cs) # post"
    and "distinct (map fst (allConnections m))"
  shows "map_of (healthyConnections (fst (updateHealthyConnections getSlot m w))) net =
           Some (healthyFilter (config m) H cs
                   (observations getSlot cs (worldAfter getSlot (concat (map snd pre)) w0)))"
proof -
  have "net \<notin> fst ` set post"
    using assms(3,4) by auto
  then show ?thesis
    using getCurrentBlock_answer [where g = getSlot, OF assms(1)] assms(2,3)
    by (simp add: update_run checkNetworks_at)
qed

lemma withinDelay_boundaries:
  "withinDelay cfg H (Some (H - maxBlockDelay cfg))"
  "\<not> withinDelay cfg H (Some (H - (maxBlockDelay cfg + 1)))"
  "0 \<le> maxBlockDelay cfg \<Longrightarrow> H < h \<Longrightarrow> withinDelay cfg H (Some h)"
  "\<not> withinDelay cfg H None"
  by (simp_all add: withinDelay_def)

text \<open>
  Claim C1, evaluated where the code departs from it. The reference endpoint answers its
  height query with slot 0, and so do the five endpoints of the network. The query has
  succeeded and every endpoint is 0 behind, so the filter of the claim keeps all five. The
  code takes \<open>!officialBlock\<close> for a failed query, although \<open>getCurrentBlock\<close> returns \<open>null\<close>
  for that and the test on each endpoint is \<open>currentBlock !== null\<close>; it skips the cycle and
  the healthy list stays the empty one from before.
\<close>

theorem refresh_skipped_at_slot_zero:
  "tableSlot genesisHeights (officialRpcEndpoint (config staleManager)) 0 = (Inr 0, 1)
   \<and> observations (tableSlot genesisHeights) exampleConnections 1 =
       [Some 0, Some 0, Some 0, Some 0, Some 0]
   \<and> healthyFilter (config staleManager) 0 exampleConnections
        (observations (tableSlot genesisHeights) exampleConnections 1) = exampleConnections
   \<and> map_of (healthyConnections staleManager) ''devnet'' = Some []
   \<and> map_of (healthyConnections
               (fst (updateHealthyConnections (tableSlot genesisHeights) staleManager 0)))
        ''devnet'' = Some []"
  by (simp add: staleManager_eq exampleConfig_fields healthyFilter_def withinDelay_def
      exampleConnections_def getCurrentBlock_def tableSlot_def genesisHeights_def
      updateHealthyConnections_def)

text \<open>
  Claim C2. Whatever the manager, when the reference endpoint's tip-height query fails the
  refresh cycle stops there: the manager after the cycle is the manager before it, so the
  healthy list of every network is the same list, and the cycle ends normally, in the
  world left by that one query.
\<close>

theorem reference_failure_keeps_manager:
  "getSlot (officialRpcEndpoint (config m)) w = (Inl err, w1) \<Longrightarrow>
   updateHealthyConnections getSlot m w = (m, w1)"
  by (simp add: updateHealthyConnections_def getCurrentBlock_def)

theorem reference_failure_keeps_manager_witness:
  "tableSlot [] (officialRpcEndpoint (config healthyManager)) 6 =
     (Inl (ErrorValue ''unreachable''), 7)
   \<and> updateHealthyConnections (tableSlot []) healthyManager 6 = (healthyManager, 7)
   \<and> getOrEmpty (healthyConnections healthyManager) ''devnet'' =
       [Connection ''https://a'' (Some ''confirmed''),
        Connection ''https://c'' (Some ''confirmed''),
        Connection ''https://ref'' (Some ''confirmed'')]"
proof -
  have h: "tableSlot [] (officialRpcEndpoint (config healthyManager)) 6 =
             (Inl (ErrorValue ''unreachable''), 7)"
    by (simp add: tableSlot_def)
  show ?thesis
    using reference_failure_keeps_manager [where getSlot = "tableSlot []" and m = healthyManager, OF h] h
    by (simp add: healthyManager_eq getOrEmpty_def)
qed

text \<open>
  Claim C9. When the reference endpoint's query succeeds with height 0 the cycle is
  skipped as it is for a failed query: the manager is unchanged, and a failed query
  ending in the same world gives the same result.
\<close>

theorem reference_slot_zero_skips_refresh:
  "getSlot (officialRpcEndpoint (config m)) w = (Inr 0, w1) \<Longrightarrow>
   updateHealthyConnections getSlot m w = (m, w1)
   \<and> (\<forall>failing err. failing (officialRpcEndpoint (config m)) w = (Inl err, w1) \<longrightarrow>
         updateHealthyConnections failing m w = updateHealthyConnections getSlot m w)"
  by (simp add: updateHealthyConnections_def getCurrentBlock_def)

theorem reference_slot_zero_skips_refresh_witness:
  "tableSlot genesisHeights (officialRpcEndpoint (config healthyManager)) 6 = (Inr 0, 7)
   \<and> updateHealthyConnections (tableSlot genesisHeights) healthyManager 6 = (healthyManager, 7)
   \<and> tableSlot [] (officialRpcEndpoint (config healthyManager)) 6 =
       (Inl (ErrorValue ''unreachable''), 7)
   \<and> updateHealthyConnections (tableSlot []) healthyManager 6 =
       updateHealthyConnections (tableSlot genesisHeights) healthyManager 6"
proof -
  have h: "tableSlot genesisHeights (officialRpcEndpoint (config healthyManager)) 6 =
             (Inr 0, 7)"
    by (simp add: healthyManager_eq exampleConfig_fields tableSlot_def genesisHeights_def)
  have f: "tableSlot [] (officialRpcEndpoint (config healthyManager)) 6 =
             (Inl (ErrorValue ''unreachable''), 7)"
    by (simp add: tableSlot_def)
  show ?thesis
    using reference_slot_zero_skips_refresh
            [where getSlot = "tableSlot genesisHeights" and m = healthyManager, OF h] h f
    by blast
qed

section \<open>Connection selector\<close>

lemma randomIndex_in_range:
  assumes "0 < n"
  shows "0 \<le> randomIndex r n \<and> randomIndex r n < int n"
proof -
  have r: "0 \<le> Rep_unitInterval r" "Rep_unitInterval r < 1"
    using Rep_unitInterval [of r] by auto
  have "Rep_unitInterval r * real n < real n"
    using r assms by simp
  then have "\<lfloor>Rep_unitInterval r * real n\<rfloor> < int n"
    by (simp add: floor_less_iff)
  moreover have "0 \<le> \<lfloor>Rep_unitInterval r * real n\<rfloor>"
    using r by simp
  ultimately show ?thesis
    by (simp add: randomIndex_def)
qed

lemma pick_member:
  assumes "cs \<noteq> []"
  shows "\<exists>c\<in>set cs. pick cs mathRandom w = (Inr (Some c), snd (mathRandom w))"
proof -
  obtain r w' where q: "mathRandom w = (r, w')"
    by (cases "mathRandom w")
  have "0 \<le> randomIndex r (length cs) \<and> randomIndex r (length cs) < int (length cs)"
    using assms randomIndex_in_range by simp
  then have "arrayAt cs (randomIndex r (length cs)) = Some (cs ! nat (randomIndex r (length cs)))"
    and "nat (randomIndex r (length cs)) < length cs"
    by (simp add: arrayAt_def, arith)
  then have "arrayAt cs (randomIndex r (length cs)) = Some (cs ! nat (randomIndex r (length cs)))"
    and "cs ! nat (randomIndex r (length cs)) \<in> set cs"
    by simp_all
  then show ?thesis
    using q by (auto simp: pick_def)
qed

lemma getConnection_cases:
  "(getOrEmpty (healthyConnections m) net \<noteq> [] \<longrightarrow>
      (\<exists>c\<in>set (getOrEmpty (healthyConnections m) net).
         getConnection accepts m mathRandom net w = (Inr (Some c), snd (mathRandom w))))
   \<and> (getOrEmpty (healthyConnections m) net = [] \<and> getOrEmpty (allConnections m) net \<noteq> [] \<longrightarrow>
      (\<exists>c\<in>set (getOrEmpty (allConnections m) net).
         getConnection accepts m mathRandom net w = (Inr (Some c), snd (mathRandom w))))
   \<and> (getOrEmpty (healthyConnections m) net = [] \<and> getOrEmpty (allConnections m) net = []
        \<and> accepts (officialRpcEndpoint (config m)) \<longrightarrow>
      getConnection accepts m mathRandom net w =
        (Inr (Some (Connection (officialRpcEndpoint (config m)) None)), w))
   \<and> (getOrEmpty (healthyConnections m) net = [] \<and> getOrEmpty (allConnections m) net = []
        \<and> \<not> accepts (officialRpcEndpoint (config m)) \<longrightarrow>
      getConnection accepts m mathRandom net w =
        (Inl (InvalidEndpoint (officialRpcEndpoint (config m))), w))"
  using pick_member [of "getOrEmpty (healthyConnections m) net" mathRandom w]
        pick_member [of "getOrEmpty (allConnections m) net" mathRandom w]
  by (simp add: getConnection_def newConnection_def Let_def)

lemma getConnection_selects:
  assumes "getOrEmpty (healthyConnections m) net \<noteq> [] \<or> getOrEmpty (allConnections m) net \<noteq> []
           \<or> accepts (officialRpcEndpoint (config m))"
  shows "\<exists>c w'. getConnection accepts m mathRandom net w = (Inr (Some c), w')"
  using assms getConnection_cases [of m net accepts mathRandom w] by blast

lemma getConnection_result:
  "(\<exists>c w'. getConnection accepts m mathRandom net w = (Inr (Some c), w'))
   \<or> getConnection accepts m mathRandom net w =
       (Inl (InvalidEndpoint (officialRpcEndpoint (config m))), w)"
  using getConnection_cases [of m net accepts mathRandom w] by blast

lemma halfRandom_index: "randomIndex (fst (halfRandom w)) n = int n div 2"
proof -
  have half: "Rep_unitInterval (Abs_unitInterval (1 / 2)) = 1 / 2"
    by (simp add: Abs_unitInterval_inverse)
  have "randomIndex (fst (halfRandom w)) n = \<lfloor>(1 / 2) * real n\<rfloor>"
    unfolding randomIndex_def halfRandom_def fst_conv half ..
  also have "\<dots> = \<lfloor>real n / 2\<rfloor>"
    by simp
  also have "\<dots> = \<lfloor>real_of_int (int n) / real_of_int 2\<rfloor>"
    by simp
  also have "\<dots> = int n div 2"
    by (rule floor_divide_of_int_eq)
  finally show ?thesis .
qed

lemma pick_halfRandom:
  "pick cs halfRandom w =
     (case arrayAt cs (int (length cs) div 2) of
        None \<Rightarrow> (Inl TypeError, w)
      | Some c \<Rightarrow> (Inr (Some c), w))"
  using halfRandom_index [of w "length cs"]
  by (simp add: pick_def halfRandom_def)

text \<open>
  Claim C3, amended. For every network and manager, \<open>getConnection\<close> follows three tiers:
  with a non-empty healthy list it returns a member of that list; with an empty healthy
  list and some configured connection it returns a member of the network's connections,
  so a network whose endpoints are all unhealthy still gets one of them; with neither it
  builds a new connection to the official endpoint, without a random draw, and returns it
  when the constructor accepts the official address. When the constructor refuses that
  address, its error leaves \<open>getConnection\<close>.
\<close>

theorem getConnection_three_tiers:
  "(getOrEmpty (healthyConnections m) net \<noteq> [] \<longrightarrow>
      (\<exists>c\<in>set (getOrEmpty (healthyConnections m) net).
         getConnection accepts m mathRandom net w = (Inr (Some c), snd (mathRandom w))))
   \<and> (getOrEmpty (healthyConnections m) net = [] \<and> getOrEmpty (allConnections m) net \<noteq> [] \<longrightarrow>
      (\<exists>c\<in>set (getOrEmpty (allConnections m) net).
         getConnection accepts m mathRandom net w = (Inr (Some c), snd (mathRandom w))))
   \<and> (getOrEmpty (healthyConnections m) net = [] \<and> getOrEmpty (allConnections m) net = []
        \<and> accepts (officialRpcEndpoint (config m)) \<longrightarrow>
      getConnection accepts m mathRandom net w =
        (Inr (Some (Connection (officialRpcEndpoint (config m)) None)), w))
   \<and> (getOrEmpty (healthyConnections m) net = [] \<and> getOrEmpty (allConnections m) net = []
        \<and> \<not> accepts (officialRpcEndpoint (config m)) \<longrightarrow>
      getConnection accepts m mathRandom net w =
        (Inl (InvalidEndpoint (officialRpcEndpoint (config m))), w))"
  by (rule getConnection_cases)

text \<open>On the healthy manager the draw one half selects the second of three healthy
  connections; on the stale manager, whose healthy list is empty, the third of the five
  configured ones; on a network that was never configured, the official endpoint; and on
  the manager whose official address has no scheme, the constructor's error.\<close>

theorem getConnection_three_tiers_witness:
  "getOrEmpty (healthyConnections healthyManager) ''devnet'' \<noteq> []
   \<and> (\<exists>c\<in>set (getOrEmpty (healthyConnections healthyManager) ''devnet'').
         getConnection httpScheme healthyManager halfRandom ''devnet'' 0 = (Inr (Some c), 0))
   \<and> getConnection httpScheme healthyManager halfRandom ''devnet'' 0 =
       (Inr (Some (Connection ''https://c'' (Some ''confirmed''))), 0)
   \<and> getOrEmpty (healthyConnections staleManager) ''devnet'' = []
   \<and> getOrEmpty (allConnections staleManager) ''devnet'' \<noteq> []
   \<and> (\<exists>c\<in>set (getOrEmpty (allConnections staleManager) ''devnet'').
         getConnection httpScheme staleManager halfRandom ''devnet'' 0 = (Inr (Some c), 0))
   \<and> getOrEmpty (healthyConnections staleManager) ''testnet'' = []
   \<and> getOrEmpty (allConnections staleManager) ''testnet'' = []
   \<and> httpScheme (officialRpcEndpoint (config staleManager))
   \<and> getConnection httpScheme staleManager halfRandom ''testnet'' 0 =
       (Inr (Some (Connection ''https://ref'' None)), 0)
   \<and> getOrEmpty (healthyConnections schemelessManager) ''testnet'' = []
   \<and> getOrEmpty (allConnections schemelessManager) ''testnet'' = []
   \<and> \<not> httpScheme (officialRpcEndpoint (config schemelessManager))
   \<and> getConnection httpScheme schemelessManager halfRandom ''testnet'' 0 =
       (Inl (InvalidEndpoint ''ref.example.com:8899''), 0)"
proof -
  have a: "getOrEmpty (healthyConnections healthyManager) ''devnet'' \<noteq> []"
    by (simp add: healthyManager_eq getOrEmpty_def)
  have b: "getOrEmpty (healthyConnections staleManager) ''devnet'' = []"
    "getOrEmpty (allConnections staleManager) ''devnet'' \<noteq> []"
    by (simp_all add: staleManager_eq getOrEmpty_def exampleConnections_def)
  have c: "getOrEmpty (healthyConnections staleManager) ''testnet'' = []"
    "getOrEmpty (allConnections staleManager) ''testnet'' = []"
    "httpScheme (officialRpcEndpoint (config staleManager))"
    by (simp_all add: staleManager_eq getOrEmpty_def exampleConfig_fields httpScheme_def
        startsWith_def)
  have d: "getConnection httpScheme healthyManager halfRandom ''devnet'' 0 =
       (Inr (Some (Connection ''https://c'' (Some ''confirmed''))), 0)"
    by (simp add: getConnection_def healthyManager_eq getOrEmpty_def pick_halfRandom
        arrayAt_def)
  have e: "snd (halfRandom 0) = 0"
    by (simp add: halfRandom_def)
  have f: "getOrEmpty (healthyConnections schemelessManager) ''testnet'' = []"
    "getOrEmpty (allConnections schemelessManager) ''testnet'' = []"
    "\<not> httpScheme (officialRpcEndpoint (config schemelessManager))"
    "officialRpcEndpoint (config schemelessManager) = ''ref.example.com:8899''"
    by (simp_all add: schemelessManager_fields getOrEmpty_def httpScheme_def startsWith_def)
  show ?thesis
    using getConnection_three_tiers [of healthyManager "''devnet''" httpScheme halfRandom 0]
          getConnection_three_tiers [of staleManager "''devnet''" httpScheme halfRandom 0]
          getConnection_three_tiers [of staleManager "''testnet''" httpScheme halfRandom 0]
          getConnection_three_tiers [of schemelessManager "''testnet''" httpScheme halfRandom 0]
          a b c d e f
    by (simp add: staleManager_eq exampleConfig_fields)
qed

text \<open>Claim C3 as it is written fails on a manager whose official address the
  constructor refuses: the default network has no healthy and no configured connection,
  and \<open>getConnection\<close> ends with the constructor's error instead of a connection.\<close>

theorem getConnection_refused_reference_counterexample:
  "getOrEmpty (healthyConnections schemelessManager) ''devnet'' = []
   \<and> getOrEmpty (allConnections schemelessManager) ''devnet'' = []
   \<and> \<not> httpScheme ''ref.example.com:8899''
   \<and> getConnection httpScheme schemelessManager halfRandom ''devnet'' 0 =
       (Inl (InvalidEndpoint ''ref.example.com:8899''), 0)"
  by (simp add: getConnection_def newConnection_def schemelessManager_fields getOrEmpty_def
      httpScheme_def startsWith_def)
section \<open>Retrying executor\<close>

subsection \<open>One turn of the loop\<close>

lemma retryLoop_done:
  "\<not> attempt < n \<Longrightarrow>
   retryLoop accepts m mathRandom rpcMethod net n t attempt lastError w =
     (Inl (case lastError of Some err \<Rightarrow> err | None \<Rightarrow> RetriesFailed), w)"
  by (subst retryLoop.simps) simp

lemma retryLoop_refused:
  "attempt < n \<Longrightarrow> getConnection accepts m mathRandom net w = (Inl err, w1) \<Longrightarrow>
   retryLoop accepts m mathRandom rpcMethod net n t attempt lastError w = (Inl err, w1)"
  by (subst retryLoop.simps) simp

lemma retryLoop_success:
  "attempt < n \<Longrightarrow> getConnection accepts m mathRandom net w = (Inr (Some c), w1) \<Longrightarrow>
   rpcMethod c w1 = (Resolved v, w2) \<Longrightarrow>
   retryLoop accepts m mathRandom rpcMethod net n t attempt lastError w = (Inr v, w2)"
  by (subst retryLoop.simps) (simp add: attemptOutcome_def)

lemma retryLoop_failure:
  "attempt < n \<Longrightarrow> getConnection accepts m mathRandom net w = (Inr (Some c), w1) \<Longrightarrow>
   rpcMethod c w1 = (s, w2) \<Longrightarrow> recordedFor t s err \<Longrightarrow>
   retryLoop accepts m mathRandom rpcMethod net n t attempt lastError w =
     retryLoop accepts m mathRandom rpcMethod net n t (attempt + 1) (Some err) w2"
  by (subst retryLoop.simps)
     (simp add: attemptOutcome_def recordedFor_def split: settled.splits thrown.splits)

lemma retryLoop_escape:
  "attempt < n \<Longrightarrow> getConnection accepts m mathRandom net w = (Inr (Some c), w1) \<Longrightarrow>
   rpcMethod c w1 = (Rejected Unconvertible, w2) \<Longrightarrow>
   retryLoop accepts m mathRandom rpcMethod net n t attempt lastError w =
     (Inl ConversionError, w2)"
  by (subst retryLoop.simps) (simp add: attemptOutcome_def)

lemma recordedFor_exists:
  "(\<forall>v. s \<noteq> Resolved v) \<Longrightarrow> s \<noteq> Rejected Unconvertible \<Longrightarrow> \<exists>err. recordedFor t s err"
proof (cases s)
  case (Rejected x)
  assume "s \<noteq> Rejected Unconvertible"
  then show ?thesis
    using Rejected by (cases x) (simp_all add: recordedFor_def)
qed (simp_all add: recordedFor_def)

lemma recordedFor_not_unavailable: "recordedFor t s err \<Longrightarrow> err \<noteq> NoAvailableConnections x"
  by (auto simp: recordedFor_def split: settled.splits thrown.splits)

lemma update_config: "config (fst (updateHealthyConnections g m w)) = config m"
  by (simp add: updateHealthyConnections_def split: prod.splits)

lemma update_allConnections:
  "allConnections (fst (updateHealthyConnections g m w)) = allConnections m"
  by (simp add: updateHealthyConnections_def split: prod.splits)

subsection \<open>Effects beside the list of calls\<close>

lemma getConnection_aside:
  "getConnection accepts m (aside mathRandom) net (calls, w) =
     (case getConnection accepts m mathRandom net w of (r, w') \<Rightarrow> (r, calls, w'))"
  by (simp add: getConnection_def pick_def aside_def Let_def
      split: prod.splits option.splits sum.splits)

lemma getCurrentBlock_aside:
  "getCurrentBlock (\<lambda>e. aside (g e)) endpoint (calls, w) =
     (case getCurrentBlock g endpoint w of (r, w') \<Rightarrow> (r, calls, w'))"
  by (simp add: getCurrentBlock_def aside_def split: prod.splits sum.splits)

lemma checkConnections_aside:
  "checkConnections cfg (\<lambda>e. aside (g e)) H cs acc (calls, w) =
     (case checkConnections cfg g H cs acc w of (r, w') \<Rightarrow> (r, calls, w'))"
  by (induction cs arbitrary: acc w)
     (simp_all add: getCurrentBlock_aside split: prod.splits option.splits)

lemma checkNetworks_aside:
  "checkNetworks cfg (\<lambda>e. aside (g e)) H es h (calls, w) =
     (case checkNetworks cfg g H es h w of (r, w') \<Rightarrow> (r, calls, w'))"
  by (induction es arbitrary: h w)
     (auto simp: checkConnections_aside split: prod.splits)

lemma update_aside:
  "updateHealthyConnections (\<lambda>e. aside (g e)) m (calls, w) =
     (case updateHealthyConnections g m w of (m', w') \<Rightarrow> (m', calls, w'))"
  by (simp add: updateHealthyConnections_def getCurrentBlock_aside checkNetworks_aside
      split: prod.splits)

subsection \<open>Runs of the loop\<close>

lemma retryLoop_never_unavailable:
  "lastError \<noteq> Some (NoAvailableConnections x) \<Longrightarrow>
   fst (retryLoop accepts m mathRandom rpcMethod net n t attempt lastError w) \<noteq>
     Inl (NoAvailableConnections x)"
proof (induction accepts m mathRandom rpcMethod net n t attempt lastError w
    rule: retryLoop.induct)
  case (1 accepts m mathRandom rpcMethod net n t attempt lastError w)
  show ?case
  proof (cases "attempt < n")
    case False
    then show ?thesis
      using "1.prems" by (cases lastError) (simp_all add: retryLoop_done)
  next
    case True
    consider (refused) "getConnection accepts m mathRandom net w =
          (Inl (InvalidEndpoint (officialRpcEndpoint (config m))), w)"
      | (selected) c w1 where "getConnection accepts m mathRandom net w = (Inr (Some c), w1)"
      using getConnection_result [of accepts m mathRandom net w] by blast
    then show ?thesis
    proof cases
      case refused
      then show ?thesis
        using True by (simp add: retryLoop_refused)
    next
      case (selected c w1)
      obtain s w2 where o: "rpcMethod c w1 = (s, w2)"
        by (cases "rpcMethod c w1")
      show ?thesis
      proof (cases "attemptOutcome t s")
        case (Returned v)
        then show ?thesis
          using True selected o by (subst retryLoop.simps) simp
      next
        case (Escaped e)
        then have "e = ConversionError"
          by (auto simp: attemptOutcome_def split: settled.splits thrown.splits)
        then show ?thesis
          using True selected o Escaped by (subst retryLoop.simps) simp
      next
        case (Recorded err)
        then have ne: "Some err \<noteq> Some (NoAvailableConnections x)"
          by (auto simp: attemptOutcome_def split: settled.splits thrown.splits)
        have "retryLoop accepts m mathRandom rpcMethod net n t attempt lastError w =
            retryLoop accepts m mathRandom rpcMethod net n t (attempt + 1) (Some err) w2"
          using True selected o Recorded by (subst retryLoop.simps) simp
        then show ?thesis
          using "1.IH" [OF True selected [symmetric] refl refl o [symmetric] Recorded ne]
          by simp
      qed
    qed
  qed
qed

lemma retryLoop_exhausts:
  assumes selects: "getOrEmpty (healthyConnections m) net \<noteq> []
      \<or> getOrEmpty (allConnections m) net \<noteq> [] \<or> accepts (officialRpcEndpoint (config m))"
    and fails: "\<forall>c w v. fst (rpcMethod c w) \<noteq> Resolved v"
    and converts: "\<forall>c w. fst (rpcMethod c w) \<noteq> Rejected Unconvertible"
  shows "int k = n - attempt \<Longrightarrow>
         \<exists>calls' w' err.
           retryLoop accepts m (aside mathRandom) (spy rpcMethod) net n t attempt lastError
             (calls, w) = (Inl err, calls @ calls', w')
           \<and> length calls' = k
           \<and> (if calls' = [] then err = (case lastError of Some e \<Rightarrow> e | None \<Rightarrow> RetriesFailed)
              else recordedFor t (last calls') err)"
proof (induction k arbitrary: attempt lastError calls w)
  case 0
  then have "\<not> attempt < n"
    by simp
  then have "retryLoop accepts m (aside mathRandom) (spy rpcMethod) net n t attempt lastError
      (calls, w) = (Inl (case lastError of Some e \<Rightarrow> e | None \<Rightarrow> RetriesFailed), calls @ [], w)"
    by (simp add: retryLoop_done)
  then show ?case
    by (intro exI [of _ "[]"] exI) simp
next
  case (Suc k)
  then have lt: "attempt < n" and k: "int k = n - (attempt + 1)"
    by simp_all
  obtain c w1 where "getConnection accepts m mathRandom net w = (Inr (Some c), w1)"
    using getConnection_selects [where accepts = accepts and mathRandom = mathRandom and w = w,
        OF selects]
    by blast
  then have g: "getConnection accepts m (aside mathRandom) net (calls, w) =
      (Inr (Some c), calls, w1)"
    by (simp add: getConnection_aside)
  obtain s w2 where o: "rpcMethod c w1 = (s, w2)"
    by (cases "rpcMethod c w1")
  then have o': "spy rpcMethod c (calls, w1) = (s, calls @ [s], w2)"
    by (simp add: spy_def)
  have "\<forall>v. s \<noteq> Resolved v" "s \<noteq> Rejected Unconvertible"
    using fails converts o by (metis fst_conv)+
  then obtain e where e: "recordedFor t s e"
    using recordedFor_exists by blast
  obtain calls' w' err where
    run: "retryLoop accepts m (aside mathRandom) (spy rpcMethod) net n t (attempt + 1) (Some e)
            (calls @ [s], w2) = (Inl err, (calls @ [s]) @ calls', w')"
    and len: "length calls' = k"
    and err: "if calls' = [] then err = e else recordedFor t (last calls') err"
    using Suc.IH [OF k, of "Some e" "calls @ [s]" w2] by auto
  have "retryLoop accepts m (aside mathRandom) (spy rpcMethod) net n t attempt lastError
      (calls, w) = (Inl err, calls @ (s # calls'), w')"
    using retryLoop_failure [where rpcMethod = "spy rpcMethod", OF lt g o' e] run by simp
  moreover have "length (s # calls') = Suc k"
    using len by simp
  moreover have "recordedFor t (last (s # calls')) err"
    using err e by (cases "calls' = []") simp_all
  ultimately show ?case
    by (intro exI [of _ "s # calls'"] exI [of _ w'] exI [of _ err]) simp
qed

lemma retryLoop_first_success:
  "nthAttempt accepts m mathRandom rpcMethod net k w = Some (Resolved v, w') \<Longrightarrow>
   attempt + int k < n \<Longrightarrow>
   retryLoop accepts m mathRandom rpcMethod net n t attempt lastError w = (Inr v, w')"
proof (induction k arbitrary: attempt lastError w)
  case 0
  obtain r w1 where g: "getConnection accepts m mathRandom net w = (r, w1)"
    by (cases "getConnection accepts m mathRandom net w")
  then obtain c where c: "r = Inr (Some c)" and o: "rpcMethod c w1 = (Resolved v, w')"
    using "0.prems"(1) by (auto split: sum.splits option.splits)
  show ?case
    using "0.prems"(2) g c o
      retryLoop_success [of attempt n accepts m mathRandom net w c w1 rpcMethod v w' t]
    by simp
next
  case (Suc k)
  obtain r w1 where g: "getConnection accepts m mathRandom net w = (r, w1)"
    by (cases "getConnection accepts m mathRandom net w")
  then obtain c where c: "r = Inr (Some c)"
    using Suc.prems(1) by (auto split: sum.splits option.splits)
  obtain s w2 where o: "rpcMethod c w1 = (s, w2)"
    by (cases "rpcMethod c w1")
  have rest: "nthAttempt accepts m mathRandom rpcMethod net k w2 = Some (Resolved v, w')"
    and "\<exists>e. recordedFor t s e"
    using Suc.prems(1) g c o
    by (auto simp: recordedFor_def split: settled.splits thrown.splits)
  then obtain e where e: "recordedFor t s e"
    by blast
  have lt: "attempt < n" "(attempt + 1) + int k < n"
    using Suc.prems(2) by simp_all
  have g': "getConnection accepts m mathRandom net w = (Inr (Some c), w1)"
    using g c by simp
  show ?case
    using retryLoop_failure [where rpcMethod = rpcMethod, OF lt(1) g' o e]
          Suc.IH [OF rest lt(2)]
    by simp
qed

lemma executeWithRetry_run:
  assumes "(if orDefault (opt_forceHealthCheck options) False
            then updateHealthyConnections getSlot m w else (m, w)) = (m1, w1)"
    and "retryLoop accepts m1 mathRandom rpcMethod
           (orDefault (opt_network options) (defaultNetwork (config m)))
           (orDefault (opt_maxRetries options) (defaultMaxRetries (config m)))
           (orDefault (opt_timeoutMs options) (defaultTimeoutMs (config m))) 0 None w1 = (r, w2)"
  shows "executeWithRetry accepts getSlot mathRandom rpcMethod options m w = (r, m1, w2)"
  unfolding executeWithRetry_def Let_def assms(1) prod.case assms(2) by (rule refl)
subsection \<open>Claims on the executor\<close>

lemma exampleOptions_fields:
  "orDefault (opt_network exampleOptions) (defaultNetwork (config healthyManager)) = ''devnet''"
  "orDefault (opt_maxRetries exampleOptions) (defaultMaxRetries (config healthyManager)) = 3"
  "orDefault (opt_timeoutMs exampleOptions) (defaultTimeoutMs (config healthyManager)) = 5000"
  "orDefault (opt_forceHealthCheck exampleOptions) False = False"
  by (simp_all add: exampleOptions_def orDefault_def healthyManager_eq exampleConfig_fields)

lemma exampleOptions_schemeless:
  "orDefault (opt_network exampleOptions) (defaultNetwork (config schemelessManager)) =
     ''devnet''"
  "orDefault (opt_maxRetries exampleOptions) (defaultMaxRetries (config schemelessManager)) = 3"
  "orDefault (opt_timeoutMs exampleOptions) (defaultTimeoutMs (config schemelessManager)) = 5000"
  by (simp_all add: exampleOptions_def orDefault_def schemelessManager_fields)

lemma noRetryOptions_fields:
  "orDefault (opt_network noRetryOptions) (defaultNetwork (config healthyManager)) = ''devnet''"
  "orDefault (opt_maxRetries noRetryOptions) (defaultMaxRetries (config healthyManager)) = 0"
  "orDefault (opt_timeoutMs noRetryOptions) (defaultTimeoutMs (config healthyManager)) = 30000"
  "orDefault (opt_forceHealthCheck noRetryOptions) False = False"
  by (simp_all add: noRetryOptions_def orDefault_def healthyManager_eq exampleConfig_fields)

lemma healthyManager_selects:
  "getConnection httpScheme healthyManager halfRandom ''devnet'' w =
     (Inr (Some (Connection ''https://c'' (Some ''confirmed''))), w)"
  by (simp add: getConnection_def healthyManager_eq getOrEmpty_def pick_halfRandom arrayAt_def)

lemma healthyManager_selects_aside:
  "getConnection httpScheme healthyManager (aside halfRandom) ''devnet'' (calls, w) =
     (Inr (Some (Connection ''https://c'' (Some ''confirmed''))), calls, w)"
  by (simp add: getConnection_aside healthyManager_selects)

lemma schemelessManager_refuses:
  "getConnection httpScheme schemelessManager mathRandom net w =
     (Inl (InvalidEndpoint ''ref.example.com:8899''), w)"
  by (simp add: getConnection_def newConnection_def schemelessManager_fields getOrEmpty_def
      httpScheme_def startsWith_def)

lemma recordedFor_iff:
  "recordedFor t s err \<longleftrightarrow>
     (\<exists>msg. s = Rejected (ErrorValue msg) \<and> err = OperationError msg)
     \<or> (\<exists>str. s = Rejected (OtherValue str) \<and> err = OperationError str)
     \<or> (s = Pending \<and> err = TimeoutError t)"
  by (auto simp: recordedFor_def split: settled.splits thrown.splits)

text \<open>
  Claim C4, amended. Let \<open>maxRetries = n > 0\<close>, let the network have a configured endpoint or
  the official address be one the constructor accepts, and let the operation never
  resolve: wherever it is invoked it rejects with an \<open>Error\<close> or with a value that has a
  string conversion, or it stays pending until the timeout. Then \<open>executeWithRetry\<close>
  invokes the operation exactly \<open>n\<close> times and fails with the failure of the last of these
  invocations: the message of its \<open>Error\<close>, the string of the value it rejected with, or
  the timeout. The invocations are counted by running the spied operation from an empty
  list of calls.
\<close>

theorem executeWithRetry_exhausts_after_maxRetries:
  fixes rpcMethod :: "connection \<Rightarrow> 'w \<Rightarrow> 'a settled \<times> 'w"
  assumes "0 < orDefault (opt_maxRetries options) (defaultMaxRetries (config m))"
    and "accepts (officialRpcEndpoint (config m))
         \<or> getOrEmpty (allConnections m)
              (orDefault (opt_network options) (defaultNetwork (config m))) \<noteq> []"
    and "\<forall>c w v. fst (rpcMethod c w) \<noteq> Resolved v"
    and "\<forall>c w. fst (rpcMethod c w) \<noteq> Rejected Unconvertible"
  shows "\<exists>err m' calls w'.
           executeWithRetry accepts (\<lambda>e. aside (getSlot e)) (aside mathRandom) (spy rpcMethod)
             options m ([], w) = (Inl err, m', calls, w')
           \<and> int (length calls) =
               orDefault (opt_maxRetries options) (defaultMaxRetries (config m))
           \<and> ((\<exists>msg. last calls = Rejected (ErrorValue msg) \<and> err = OperationError msg)
              \<or> (\<exists>str. last calls = Rejected (OtherValue str) \<and> err = OperationError str)
              \<or> (last calls = Pending
                  \<and> err = TimeoutError
                            (orDefault (opt_timeoutMs options) (defaultTimeoutMs (config m)))))"
proof -
  let ?n = "orDefault (opt_maxRetries options) (defaultMaxRetries (config m))"
  let ?t = "orDefault (opt_timeoutMs options) (defaultTimeoutMs (config m))"
  let ?net = "orDefault (opt_network options) (defaultNetwork (config m))"
  let ?none = "[] :: 'a settled list"
  have "\<exists>m1 w1. (if orDefault (opt_forceHealthCheck options) False
             then updateHealthyConnections (\<lambda>e. aside (getSlot e)) m (?none, w)
             else (m, ?none, w)) = (m1, ?none, w1)
           \<and> allConnections m1 = allConnections m \<and> config m1 = config m"
  proof (cases "orDefault (opt_forceHealthCheck options) False")
    case True
    obtain m1 w1 where u: "updateHealthyConnections getSlot m w = (m1, w1)"
      by (cases "updateHealthyConnections getSlot m w")
    have "allConnections m1 = allConnections m" "config m1 = config m"
      using u update_allConnections [of getSlot m w] update_config [of getSlot m w] by simp_all
    then show ?thesis
      using True u by (simp add: update_aside)
  next
    case False
    then show ?thesis by simp
  qed
  then obtain m1 w1 where
    start: "(if orDefault (opt_forceHealthCheck options) False
             then updateHealthyConnections (\<lambda>e. aside (getSlot e)) m (?none, w)
             else (m, ?none, w)) = (m1, ?none, w1)"
    and same: "allConnections m1 = allConnections m" "config m1 = config m"
    by blast
  have selects: "getOrEmpty (healthyConnections m1) ?net \<noteq> []
      \<or> getOrEmpty (allConnections m1) ?net \<noteq> [] \<or> accepts (officialRpcEndpoint (config m1))"
    using assms(2) same by auto
  have k: "int (nat ?n) = ?n - 0"
    using assms(1) by simp
  obtain calls w' err where
    run: "retryLoop accepts m1 (aside mathRandom) (spy rpcMethod) ?net ?n ?t 0 None (?none, w1) =
            (Inl err, [] @ calls, w')"
    and len: "length calls = nat ?n"
    and err: "if calls = [] then err = (case None of Some e \<Rightarrow> e | None \<Rightarrow> RetriesFailed)
              else recordedFor ?t (last calls) err"
    using retryLoop_exhausts
            [where accepts = accepts and m = m1 and rpcMethod = rpcMethod and net = ?net
               and mathRandom = mathRandom and t = ?t and lastError = None and calls = "[]"
               and w = w1, OF selects assms(3) assms(4) k]
    by blast
  have "calls \<noteq> []"
    using len assms(1) by auto
  then have "recordedFor ?t (last calls) err"
    using err by simp
  then have last: "(\<exists>msg. last calls = Rejected (ErrorValue msg) \<and> err = OperationError msg)
              \<or> (\<exists>str. last calls = Rejected (OtherValue str) \<and> err = OperationError str)
              \<or> (last calls = Pending \<and> err = TimeoutError ?t)"
    by (simp add: recordedFor_iff)
  have count: "int (length calls) = ?n"
    using len assms(1) by simp
  have run': "retryLoop accepts m1 (aside mathRandom) (spy rpcMethod) ?net ?n ?t 0 None
      (?none, w1) = (Inl err, calls, w')"
    using run by simp
  have "executeWithRetry accepts (\<lambda>e. aside (getSlot e)) (aside mathRandom) (spy rpcMethod)
      options m (?none, w) = (Inl err, m1, calls, w')"
    by (rule executeWithRetry_run [OF start run'])
  then show ?thesis
    using count last by blast
qed

text \<open>Three retries, as in the repository's example: the operation is invoked three
  times, and the error carries the message of the third invocation's \<open>Error\<close>, not the
  timeout of the first.\<close>

theorem executeWithRetry_exhausts_after_maxRetries_witness:
  "0 < orDefault (opt_maxRetries exampleOptions) (defaultMaxRetries (config healthyManager))
   \<and> httpScheme (officialRpcEndpoint (config healthyManager))
   \<and> getOrEmpty (allConnections healthyManager)
        (orDefault (opt_network exampleOptions) (defaultNetwork (config healthyManager))) \<noteq> []
   \<and> (\<forall>c w v. fst (failingOperation c w) \<noteq> Resolved v)
   \<and> (\<forall>c w. fst (failingOperation c w) \<noteq> Rejected Unconvertible)
   \<and> (\<exists>err m' calls w'.
         executeWithRetry httpScheme (\<lambda>e. aside (tableSlot exampleHeights e)) (aside halfRandom)
           (spy failingOperation) exampleOptions healthyManager ([], 0) = (Inl err, m', calls, w')
         \<and> int (length calls) = 3)
   \<and> executeWithRetry httpScheme (\<lambda>e. aside (tableSlot exampleHeights e)) (aside halfRandom)
       (spy failingOperation) exampleOptions healthyManager ([], 0) =
       (Inl (OperationError ''refused''), healthyManager,
        [Pending, Rejected (OtherValue ''reset''), Rejected (ErrorValue ''refused'')], 3)"
proof -
  have h1: "0 < orDefault (opt_maxRetries exampleOptions)
                  (defaultMaxRetries (config healthyManager))"
    by (simp add: exampleOptions_fields)
  have a: "httpScheme (officialRpcEndpoint (config healthyManager))"
    by (simp add: healthyManager_eq exampleConfig_fields httpScheme_def startsWith_def)
  have b: "getOrEmpty (allConnections healthyManager)
        (orDefault (opt_network exampleOptions) (defaultNetwork (config healthyManager))) \<noteq> []"
    unfolding exampleOptions_fields(1)
    by (simp add: healthyManager_eq getOrEmpty_def exampleConnections_def)
  have h2: "httpScheme (officialRpcEndpoint (config healthyManager))
      \<or> getOrEmpty (allConnections healthyManager)
        (orDefault (opt_network exampleOptions) (defaultNetwork (config healthyManager))) \<noteq> []"
    using a by simp
  have h3: "\<forall>c w v. fst (failingOperation c w) \<noteq> Resolved v"
    by (simp add: failingOperation_def)
  have h4: "\<forall>c w. fst (failingOperation c w) \<noteq> Rejected Unconvertible"
    by (simp add: failingOperation_def)
  have run: "executeWithRetry httpScheme (\<lambda>e. aside (tableSlot exampleHeights e))
       (aside halfRandom) (spy failingOperation) exampleOptions healthyManager ([], 0) =
       (Inl (OperationError ''refused''), healthyManager,
        [Pending, Rejected (OtherValue ''reset''), Rejected (ErrorValue ''refused'')], 3)"
    by (simp add: executeWithRetry_def exampleOptions_fields retryLoop.simps
        healthyManager_selects_aside spy_def failingOperation_def attemptOutcome_def)
  show ?thesis
    using executeWithRetry_exhausts_after_maxRetries
            [where rpcMethod = failingOperation and options = exampleOptions
               and m = healthyManager and getSlot = "tableSlot exampleHeights"
               and mathRandom = halfRandom and w = 0 and accepts = httpScheme,
             OF h1 h2 h3 h4]
          h1 a b h3 h4 run
    by (simp add: exampleOptions_fields)
qed

text \<open>Claim C4 as it is written fails in two ways, both with three retries allowed. On the
  manager whose official address the constructor refuses, the selection of the first
  attempt throws and an operation that always fails is not invoked at all. On the healthy
  manager, an operation that always rejects with a value that has no string conversion
  is invoked once: \<open>String(error)\<close> throws inside the \<open>catch\<close> and that error ends the call.\<close>

theorem executeWithRetry_fewer_attempts_counterexample:
  "orDefault (opt_maxRetries exampleOptions) (defaultMaxRetries (config schemelessManager)) = 3
   \<and> executeWithRetry httpScheme (\<lambda>e. aside (tableSlot exampleHeights e)) (aside halfRandom)
       (spy failingOperation) exampleOptions schemelessManager ([], 0) =
       (Inl (InvalidEndpoint ''ref.example.com:8899''), schemelessManager, [], 0)
   \<and> orDefault (opt_maxRetries exampleOptions) (defaultMaxRetries (config healthyManager)) = 3
   \<and> executeWithRetry httpScheme (\<lambda>e. aside (tableSlot exampleHeights e)) (aside halfRandom)
       (spy opaqueOperation) exampleOptions healthyManager ([], 0) =
       (Inl ConversionError, healthyManager, [Rejected Unconvertible], 1)"
proof -
  have "executeWithRetry httpScheme (\<lambda>e. aside (tableSlot exampleHeights e)) (aside halfRandom)
       (spy failingOperation) exampleOptions schemelessManager ([], 0) =
       (Inl (InvalidEndpoint ''ref.example.com:8899''), schemelessManager, [], 0)"
    by (simp add: executeWithRetry_def exampleOptions_schemeless exampleOptions_fields(4)
        retryLoop.simps getConnection_aside schemelessManager_refuses)
  moreover have "executeWithRetry httpScheme (\<lambda>e. aside (tableSlot exampleHeights e))
       (aside halfRandom) (spy opaqueOperation) exampleOptions healthyManager ([], 0) =
       (Inl ConversionError, healthyManager, [Rejected Unconvertible], 1)"
    by (simp add: executeWithRetry_def exampleOptions_fields retryLoop.simps
        healthyManager_selects_aside spy_def opaqueOperation_def attemptOutcome_def)
  ultimately show ?thesis
    by (simp add: exampleOptions_fields exampleOptions_schemeless)
qed

text \<open>What does hold of the first success: if, after the optional forced health check,
  each of the first \<open>k\<close> attempts is rejected with an \<open>Error\<close> or a value that has a string
  conversion, or times out, and attempt \<open>k + 1\<close> resolves to \<open>v\<close>, with \<open>k < maxRetries\<close>, then
  \<open>executeWithRetry\<close> returns \<open>v\<close> in the world right after that attempt.\<close>

lemma executeWithRetry_first_success:
  assumes "(if orDefault (opt_forceHealthCheck options) False
            then updateHealthyConnections getSlot m w else (m, w)) = (m1, w0)"
    and "nthAttempt accepts m1 mathRandom rpcMethod
           (orDefault (opt_network options) (defaultNetwork (config m))) k w0 =
         Some (Resolved v, w')"
    and "int k < orDefault (opt_maxRetries options) (defaultMaxRetries (config m))"
  shows "executeWithRetry accepts getSlot mathRandom rpcMethod options m w = (Inr v, m1, w')"
proof -
  have "0 + int k < orDefault (opt_maxRetries options) (defaultMaxRetries (config m))"
    using assms(3) by simp
  then have "retryLoop accepts m1 mathRandom rpcMethod
      (orDefault (opt_network options) (defaultNetwork (config m)))
      (orDefault (opt_maxRetries options) (defaultMaxRetries (config m)))
      (orDefault (opt_timeoutMs options) (defaultTimeoutMs (config m))) 0 None w0 = (Inr v, w')"
    using assms(2) by (rule retryLoop_first_success [rotated])
  then show ?thesis
    by (rule executeWithRetry_run [OF assms(1)])
qed

text \<open>
  Claim C6, evaluated where the code departs from it. Three retries are allowed. The
  operation fails on attempt 1, by rejecting with a value that has no string conversion,
  and would resolve on attempt 2. The claim has the result of attempt 2 returned. In the
  code the \<open>catch\<close> of attempt 1 evaluates \<open>new Error(String(error))\<close>, the conversion throws,
  and the call ends with that error after a single invocation.
\<close>

theorem executeWithRetry_stops_on_unconvertible_rejection:
  "orDefault (opt_maxRetries exampleOptions) (defaultMaxRetries (config healthyManager)) = 3
   \<and> opaqueOnceOperation (Connection ''https://c'' (Some ''confirmed'')) 0 =
       (Rejected Unconvertible, 1)
   \<and> opaqueOnceOperation (Connection ''https://c'' (Some ''confirmed'')) 1 =
       (Resolved ''https://c'', 2)
   \<and> executeWithRetry httpScheme (\<lambda>e. aside (tableSlot exampleHeights e)) (aside halfRandom)
       (spy opaqueOnceOperation) exampleOptions healthyManager ([], 0) =
       (Inl ConversionError, healthyManager, [Rejected Unconvertible], 1)"
  by (simp add: executeWithRetry_def exampleOptions_fields retryLoop.simps
      healthyManager_selects_aside spy_def opaqueOnceOperation_def attemptOutcome_def)

text \<open>
  Claim C10. With \<open>maxRetries\<close> zero or negative \<open>executeWithRetry\<close> fails with the generic
  error \<open>RPC call failed after multiple retries\<close>, and the manager and world it ends in
  are those left by the optional forced health check alone: no random draw, no selection
  and no invocation of the operation took place, whatever the operation is.
\<close>

theorem executeWithRetry_without_retries:
  assumes "orDefault (opt_maxRetries options) (defaultMaxRetries (config m)) \<le> 0"
  shows "executeWithRetry accepts getSlot mathRandom rpcMethod options m w =
           (Inl RetriesFailed,
            if orDefault (opt_forceHealthCheck options) False
            then updateHealthyConnections getSlot m w else (m, w))"
proof -
  have "\<not> 0 < orDefault (opt_maxRetries options) (defaultMaxRetries (config m))"
    using assms by simp
  then show ?thesis
    by (simp add: executeWithRetry_def Let_def retryLoop_done split: prod.splits)
qed

text \<open>With \<open>maxRetries = 0\<close> an operation that would resolve is never invoked: the spy's
  list of calls stays empty and the world stays 0.\<close>

theorem executeWithRetry_without_retries_witness:
  "orDefault (opt_maxRetries noRetryOptions) (defaultMaxRetries (config healthyManager)) \<le> 0
   \<and> executeWithRetry httpScheme (\<lambda>e. aside (tableSlot exampleHeights e)) (aside halfRandom)
       (spy secondTimeOperation) noRetryOptions healthyManager ([], 0) =
       (Inl RetriesFailed, healthyManager, [], 0)"
proof -
  have h: "orDefault (opt_maxRetries noRetryOptions)
             (defaultMaxRetries (config healthyManager)) \<le> 0"
    by (simp add: noRetryOptions_fields)
  show ?thesis
    using executeWithRetry_without_retries
            [where rpcMethod = "spy secondTimeOperation" and mathRandom = "aside halfRandom"
               and getSlot = "\<lambda>e. aside (tableSlot exampleHeights e)" and w = "([], 0)"
               and accepts = httpScheme, OF h]
          h
    by (simp add: noRetryOptions_fields)
qed

text \<open>
  Claim C8, amended. For every network name and manager \<open>getConnection\<close> never returns
  \<open>null\<close>: it returns a connection, or the constructor's error for the official address
  leaves it. It returns a connection whenever the network has a healthy or a configured
  connection or the constructor accepts the official address; with neither list, the
  connection is a new one to the official endpoint. Hence \<open>executeWithRetry\<close> never fails
  with the error of its \<open>!connection\<close> branch.
\<close>

theorem getConnection_never_null:
  "fst (getConnection accepts m mathRandom net w) \<noteq> Inr None
   \<and> ((\<exists>c. fst (getConnection accepts m mathRandom net w) = Inr (Some c))
      \<or> fst (getConnection accepts m mathRandom net w) =
          Inl (InvalidEndpoint (officialRpcEndpoint (config m))))
   \<and> (accepts (officialRpcEndpoint (config m)) \<or> getOrEmpty (healthyConnections m) net \<noteq> []
        \<or> getOrEmpty (allConnections m) net \<noteq> [] \<longrightarrow>
      (\<exists>c. fst (getConnection accepts m mathRandom net w) = Inr (Some c)))
   \<and> (getOrEmpty (healthyConnections m) net = [] \<and> getOrEmpty (allConnections m) net = []
        \<and> accepts (officialRpcEndpoint (config m)) \<longrightarrow>
      fst (getConnection accepts m mathRandom net w) =
        Inr (Some (Connection (officialRpcEndpoint (config m)) None)))
   \<and> (\<forall>x. fst (executeWithRetry accepts getSlot mathRandom rpcMethod options m w) \<noteq>
            Inl (NoAvailableConnections x))"
proof -
  have result: "(\<exists>c. fst (getConnection accepts m mathRandom net w) = Inr (Some c))
      \<or> fst (getConnection accepts m mathRandom net w) =
          Inl (InvalidEndpoint (officialRpcEndpoint (config m)))"
    using getConnection_result [of accepts m mathRandom net w] by auto
  then have notnull: "fst (getConnection accepts m mathRandom net w) \<noteq> Inr None"
    by auto
  have selects: "accepts (officialRpcEndpoint (config m))
        \<or> getOrEmpty (healthyConnections m) net \<noteq> []
        \<or> getOrEmpty (allConnections m) net \<noteq> [] \<longrightarrow>
      (\<exists>c. fst (getConnection accepts m mathRandom net w) = Inr (Some c))"
    using getConnection_cases [of m net accepts mathRandom w] by auto
  have fresh: "getOrEmpty (healthyConnections m) net = [] \<and> getOrEmpty (allConnections m) net = []
        \<and> accepts (officialRpcEndpoint (config m)) \<longrightarrow>
      fst (getConnection accepts m mathRandom net w) =
        Inr (Some (Connection (officialRpcEndpoint (config m)) None))"
    using getConnection_cases [of m net accepts mathRandom w] by auto
  obtain m1 w1 where
    start: "(if orDefault (opt_forceHealthCheck options) False
             then updateHealthyConnections getSlot m w else (m, w)) = (m1, w1)"
    by (cases "if orDefault (opt_forceHealthCheck options) False
               then updateHealthyConnections getSlot m w else (m, w)")
  obtain r w2 where
    run: "retryLoop accepts m1 mathRandom rpcMethod
            (orDefault (opt_network options) (defaultNetwork (config m)))
            (orDefault (opt_maxRetries options) (defaultMaxRetries (config m)))
            (orDefault (opt_timeoutMs options) (defaultTimeoutMs (config m))) 0 None w1 =
          (r, w2)"
    by (cases "retryLoop accepts m1 mathRandom rpcMethod
            (orDefault (opt_network options) (defaultNetwork (config m)))
            (orDefault (opt_maxRetries options) (defaultMaxRetries (config m)))
            (orDefault (opt_timeoutMs options) (defaultTimeoutMs (config m))) 0 None w1")
  have "\<forall>x. r \<noteq> Inl (NoAvailableConnections x)"
    using retryLoop_never_unavailable
            [of None _ accepts m1 mathRandom rpcMethod
               "orDefault (opt_network options) (defaultNetwork (config m))"
               "orDefault (opt_maxRetries options) (defaultMaxRetries (config m))"
               "orDefault (opt_timeoutMs options) (defaultTimeoutMs (config m))" 0 w1]
          run
    by simp
  then have "\<forall>x. fst (executeWithRetry accepts getSlot mathRandom rpcMethod options m w) \<noteq>
            Inl (NoAvailableConnections x)"
    by (simp add: executeWithRetry_run [OF start run])
  then show ?thesis
    using result notnull selects fresh by blast
qed

text \<open>The healthy manager returns one of its healthy connections on its own network and
  a new connection to the official endpoint on a network that was never configured.\<close>

theorem getConnection_never_null_witness:
  "httpScheme (officialRpcEndpoint (config healthyManager))
   \<and> getOrEmpty (healthyConnections healthyManager) ''devnet'' \<noteq> []
   \<and> fst (getConnection httpScheme healthyManager halfRandom ''devnet'' 0) =
       Inr (Some (Connection ''https://c'' (Some ''confirmed'')))
   \<and> getOrEmpty (healthyConnections healthyManager) ''testnet'' = []
   \<and> getOrEmpty (allConnections healthyManager) ''testnet'' = []
   \<and> fst (getConnection httpScheme healthyManager halfRandom ''testnet'' 0) =
       Inr (Some (Connection ''https://ref'' None))
   \<and> fst (getConnection httpScheme healthyManager halfRandom ''testnet'' 0) \<noteq> Inr None"
proof -
  have a: "httpScheme (officialRpcEndpoint (config healthyManager))"
    by (simp add: healthyManager_eq exampleConfig_fields httpScheme_def startsWith_def)
  have b: "getOrEmpty (healthyConnections healthyManager) ''devnet'' \<noteq> []"
    by (simp add: healthyManager_eq getOrEmpty_def)
  have e: "getOrEmpty (healthyConnections healthyManager) ''testnet'' = []"
    "getOrEmpty (allConnections healthyManager) ''testnet'' = []"
    by (simp_all add: healthyManager_eq getOrEmpty_def)
  show ?thesis
    using getConnection_never_null
            [where m = healthyManager and net = "''testnet''" and mathRandom = halfRandom
               and w = 0 and getSlot = "tableSlot exampleHeights" and accepts = httpScheme
               and rpcMethod = failingOperation and options = exampleOptions]
          a b e
    by (simp add: healthyManager_eq exampleConfig_fields healthyManager_selects
        [unfolded healthyManager_eq])
qed

text \<open>Claim C8 as it is written fails on the manager whose official address the
  constructor refuses: on a network without connections \<open>getConnection\<close> returns nothing,
  the constructor's error leaves it.\<close>

theorem getConnection_refused_everywhere_counterexample:
  "\<not> httpScheme (officialRpcEndpoint (config schemelessManager))
   \<and> fst (getConnection httpScheme schemelessManager halfRandom ''mainnet-beta'' 0) =
       Inl (InvalidEndpoint ''ref.example.com:8899'')"
  by (simp add: schemelessManager_refuses schemelessManager_fields httpScheme_def
      startsWith_def)
section \<open>The healthy list stays within the configured connections\<close>

lemma getOrEmpty_update:
  "getOrEmpty (AList.update k v al) n = (if n = k then v else getOrEmpty al n)"
  by (simp add: getOrEmpty_def update_conv')

lemma getOrEmpty_entry:
  "distinct (map fst al) \<Longrightarrow> (n, cs) \<in> set al \<Longrightarrow> getOrEmpty al n = cs"
  by (simp add: getOrEmpty_def)

lemma healthyFilter_subset: "set (healthyFilter cfg H cs obs) \<subseteq> set cs"
  by (auto simp: healthyFilter_def dest: set_zip_leftD)

lemma checkNetworks_within:
  assumes "\<And>n cs. (n, cs) \<in> set es \<Longrightarrow> set cs \<subseteq> S n"
    and "\<And>n. set (getOrEmpty h n) \<subseteq> S n"
  shows "set (getOrEmpty (fst (checkNetworks cfg g H es h w)) n) \<subseteq> S n"
  using assms
proof (induction es arbitrary: h w)
  case Nil
  then show ?case by simp
next
  case (Cons e es)
  obtain k cs where e: "e = (k, cs)"
    by (cases e)
  have kept: "set (healthyFilter cfg H cs (observations g cs w)) \<subseteq> S k"
    using healthyFilter_subset [of cfg H cs] Cons.prems(1) [of k cs] e by auto
  have "set (getOrEmpty (fst (checkNetworks cfg g H es
            (AList.update k (healthyFilter cfg H cs (observations g cs w)) h)
            (worldAfter g cs w))) n) \<subseteq> S n"
  proof (rule Cons.IH)
    show "set cs' \<subseteq> S n'" if "(n', cs') \<in> set es" for n' cs'
      using that Cons.prems(1) by simp
    show "set (getOrEmpty (AList.update k (healthyFilter cfg H cs (observations g cs w)) h) n')
            \<subseteq> S n'" for n'
      using kept Cons.prems(2) by (simp add: getOrEmpty_update)
  qed
  then show ?case
    by (simp add: e checkConnections_eq)
qed

lemma update_within:
  assumes "distinct (map fst (allConnections m))"
    and "\<And>n. set (getOrEmpty (healthyConnections m) n) \<subseteq> set (getOrEmpty (allConnections m) n)"
  shows "set (getOrEmpty (healthyConnections (fst (updateHealthyConnections g m w))) n)
           \<subseteq> set (getOrEmpty (allConnections m) n)"
proof -
  obtain r w1 where q: "getCurrentBlock g (officialRpcEndpoint (config m)) w = (r, w1)"
    by (cases "getCurrentBlock g (officialRpcEndpoint (config m)) w")
  show ?thesis
  proof (cases "r = None \<or> r = Some 0")
    case True
    then show ?thesis
      using q assms(2) by (simp add: update_skipped)
  next
    case False
    then obtain H where H: "r = Some H" "H \<noteq> 0"
      by (cases r) auto
    have "set (getOrEmpty (fst (checkNetworks (config m) g H (allConnections m)
              (healthyConnections m) w1)) n) \<subseteq> set (getOrEmpty (allConnections m) n)"
    proof (rule checkNetworks_within)
      show "set cs \<subseteq> set (getOrEmpty (allConnections m) k)"
        if "(k, cs) \<in> set (allConnections m)" for k cs
        using that assms(1) by (simp add: getOrEmpty_entry)
      show "set (getOrEmpty (healthyConnections m) k) \<subseteq> set (getOrEmpty (allConnections m) k)"
        for k
        by (rule assms(2))
    qed
    then show ?thesis
      using q H by (simp add: update_run)
  qed
qed

lemma initialize_stores:
  assumes "initialize accepts getSlot fs m w = (Inr (), m', w')"
  shows "\<exists>connections.
           m' = fst (updateHealthyConnections getSlot
                  (m\<lparr>allConnections := AList.update (defaultNetwork (config m)) connections
                                         (allConnections m)\<rparr>) w)"
proof -
  obtain connections where
    "updateHealthyConnections getSlot
       (m\<lparr>allConnections := AList.update (defaultNetwork (config m)) connections
                              (allConnections m)\<rparr>) w = (m', w')"
    using assms by (auto simp: initialize_def Let_def split: sum.splits prod.splits)
  then have "m' = fst (updateHealthyConnections getSlot
                  (m\<lparr>allConnections := AList.update (defaultNetwork (config m)) connections
                                         (allConnections m)\<rparr>) w)"
    by simp
  then show ?thesis ..
qed

lemma initialize_throws:
  "initialize accepts getSlot fs m w = (Inl err, m', w') \<Longrightarrow> m' = m"
  by (auto simp: initialize_def Let_def split: sum.splits prod.splits)

lemma reachable_invariant:
  "reachable accepts getSlot fs p m \<Longrightarrow>
   distinct (map fst (allConnections m))
   \<and> (\<forall>n. set (getOrEmpty (healthyConnections m) n) \<subseteq> set (getOrEmpty (allConnections m) n))
   \<and> (p = Constructed \<longrightarrow> (\<forall>n. getOrEmpty (allConnections m) n = []))"
proof (induction rule: reachable.induct)
  case (construction pc)
  show ?case
    by (simp add: constructor_def Let_def getOrEmpty_def)
next
  case (initialisation m w m' w')
  obtain connections where
    m': "m' = fst (updateHealthyConnections getSlot
                  (m\<lparr>allConnections := AList.update (defaultNetwork (config m)) connections
                                         (allConnections m)\<rparr>) w)"
    using initialize_stores [OF initialisation.hyps(2)] by blast
  let ?m = "m\<lparr>allConnections := AList.update (defaultNetwork (config m)) connections
                                   (allConnections m)\<rparr>"
  have d: "distinct (map fst (allConnections ?m))"
    using initialisation.IH by (simp add: distinct_update)
  have empty: "getOrEmpty (healthyConnections m) n = []" for n
    using initialisation.IH by auto
  then have sub: "set (getOrEmpty (healthyConnections ?m) n) \<subseteq> set (getOrEmpty (allConnections ?m) n)"
    for n
    by simp
  have "set (getOrEmpty (healthyConnections (fst (updateHealthyConnections getSlot ?m w))) n)
          \<subseteq> set (getOrEmpty (allConnections ?m) n)" for n
    using d sub by (rule update_within)
  then show ?case
    using d by (simp add: m' update_allConnections)
next
  case (failedInitialisation m w err m' w')
  then show ?case
    using initialize_throws [OF failedInitialisation.hyps(2)] by auto
next
  case (refresh p m w)
  have "set (getOrEmpty (healthyConnections (fst (updateHealthyConnections getSlot m w))) n)
          \<subseteq> set (getOrEmpty (allConnections m) n)" for n
    using refresh.IH by (intro update_within) auto
  then show ?case
    using refresh.IH by (simp add: update_allConnections)
qed

text \<open>
  Claim C5. In every state the manager reaches (constructed, initialised once, refreshed
  any number of times before and after) and for every network, the addresses of the
  healthy list are among the addresses of the network's connections.
\<close>

theorem healthy_within_all:
  assumes "reachable accepts getSlot fs p m"
  shows "set (map rpcEndpoint (getOrEmpty (healthyConnections m) net))
           \<subseteq> set (map rpcEndpoint (getOrEmpty (allConnections m) net))"
proof -
  have "set (getOrEmpty (healthyConnections m) net) \<subseteq> set (getOrEmpty (allConnections m) net)"
    using reachable_invariant [OF assms] by blast
  then show ?thesis
    by auto
qed

text \<open>The healthy manager is reached by construction, initialisation and one refresh
  cycle; three of its five addresses are healthy.\<close>

theorem healthy_within_all_witness:
  "reachable httpScheme (tableSlot exampleHeights) noFiles Initialized healthyManager
   \<and> set (map rpcEndpoint (getOrEmpty (healthyConnections healthyManager) ''devnet''))
       \<subseteq> set (map rpcEndpoint (getOrEmpty (allConnections healthyManager) ''devnet''))
   \<and> map rpcEndpoint (getOrEmpty (healthyConnections healthyManager) ''devnet'') =
       [''https://a'', ''https://c'', ''https://ref'']
   \<and> map rpcEndpoint (getOrEmpty (allConnections healthyManager) ''devnet'') =
       [''https://a'', ''https://b'', ''https://c'', ''https://d'', ''https://ref'']"
proof -
  have init: "initialize httpScheme (tableSlot exampleHeights) noFiles
                (constructor examplePartial) 0 = (Inr (), healthyManager, 6)"
    by (simp add: healthyManager_eq initialize_def constructor_def exampleEndpoints_eq
        newConnection_def httpScheme_def startsWith_def
        updateHealthyConnections_def getCurrentBlock_def tableSlot_def exampleConnections_def
        exampleConfig_fields exampleHeights_def)
  have "reachable httpScheme (tableSlot exampleHeights) noFiles Initialized
          (fst (updateHealthyConnections (tableSlot exampleHeights) healthyManager 6))"
    by (intro reachable.refresh reachable.initialisation [OF reachable.construction init])
  moreover have "fst (updateHealthyConnections (tableSlot exampleHeights) healthyManager 6) =
      healthyManager"
    by (simp add: healthyManager_eq
        updateHealthyConnections_def getCurrentBlock_def tableSlot_def exampleConnections_def
        exampleConfig_fields exampleHeights_def)
  ultimately have r: "reachable httpScheme (tableSlot exampleHeights) noFiles Initialized
      healthyManager"
    by simp
  show ?thesis
    using healthy_within_all [OF r, of "''devnet''"] r
    by (simp add: healthyManager_eq getOrEmpty_def exampleConnections_def)
qed
section \<open>Endpoint sources\<close>

lemma setAdd_set: "set (setAdd es e) = insert e (set es)"
  by (auto simp: setAdd_def)

lemma setAdd_distinct: "distinct es \<Longrightarrow> distinct (setAdd es e)"
  by (simp add: setAdd_def)

lemma foldl_setAdd_set: "set (foldl setAdd es xs) = set es \<union> set xs"
  by (induction xs arbitrary: es) (auto simp: setAdd_set)

lemma foldl_setAdd_distinct: "distinct es \<Longrightarrow> distinct (foldl setAdd es xs)"
  by (induction xs arbitrary: es) (simp_all add: setAdd_distinct)

lemma addHosts_distinct: "distinct es \<Longrightarrow> distinct (addHosts es items)"
  by (induction es items rule: addHosts.induct) (simp_all add: setAdd_distinct)

lemma addHosts_strings:
  "set (addHosts es (map JString hosts)) =
     set es \<union> (\<lambda>host. if startsWith host ''http'' then host else ''http://'' @ host) ` set hosts"
  by (induction hosts arbitrary: es) (auto simp: setAdd_set)

text \<open>What does hold of \<open>loadRpcEndpoints\<close>: the list has no duplicates and contains the
  official endpoint, and for a hosts file that is an array of strings it is the union of
  the custom endpoints, the hosts (prefixed with \<open>http://\<close> unless they start with the four
  letters \<open>http\<close>) and the official endpoint.\<close>

lemma loadRpcEndpoints_distinct: "distinct (loadRpcEndpoints cfg fs)"
  by (simp add: loadRpcEndpoints_def Let_def setAdd_distinct addHosts_distinct
      foldl_setAdd_distinct split: option.splits hostsFile.splits)

lemma loadRpcEndpoints_official: "officialRpcEndpoint cfg \<in> set (loadRpcEndpoints cfg fs)"
  by (simp add: loadRpcEndpoints_def Let_def setAdd_set)

lemma loadRpcEndpoints_union:
  assumes "rpcHostsFilePath cfg = Some path" and "path \<noteq> []"
    and "fs path = Parsed (map JString hosts)"
  shows "set (loadRpcEndpoints cfg fs) =
           set (case customRpcEndpoints cfg of None \<Rightarrow> [] | Some custom \<Rightarrow> custom)
           \<union> (\<lambda>host. if startsWith host ''http'' then host else ''http://'' @ host) ` set hosts
           \<union> {officialRpcEndpoint cfg}"
  using assms
  by (auto simp: loadRpcEndpoints_def Let_def setAdd_set addHosts_strings foldl_setAdd_set
      split: option.splits)

text \<open>
  Claim C7, evaluated where the code departs from it. The hosts file lists
  \<open>endpoint1.com:8899\<close> and \<open>httpnode.example.com:8899\<close>; neither has a scheme. The first
  is prefixed with \<open>http://\<close>. The second is kept as it is, because the test is
  \<open>host.startsWith('http')\<close>, although the comment above it reads: if the host doesn't
  start with \<open>http://\<close> or \<open>https://\<close>, assume \<open>http://\<close>.
\<close>

theorem loadRpcEndpoints_keeps_schemeless_host:
  "loadRpcEndpoints hostsConfig hostsFiles =
     [''https://a'', ''https://b'', ''https://c'', ''https://d'', ''http://endpoint1.com:8899'',
      ''httpnode.example.com:8899'', ''https://ref'']
   \<and> \<not> startsWith ''httpnode.example.com:8899'' ''http://''
   \<and> \<not> startsWith ''httpnode.example.com:8899'' ''https://''
   \<and> ''http://httpnode.example.com:8899'' \<notin> set (loadRpcEndpoints hostsConfig hostsFiles)"
  by (simp add: loadRpcEndpoints_def hostsConfig_def hostsFiles_def exampleConfig_fields
      setAdd_def startsWith_def)


end
